theory Spec2Isabelle
  imports Complex_Main "HOL-Library.Signed_Division"
begin

section \<open>Values of the host language\<close>

text \<open>
  The SDK is TypeScript. Its \<^verbatim>\<open>number\<close> fields that hold ticks, basis points, durations and
  whole-token amounts are modelled on the integers; the two fields that hold an amount of
  ETH (\<^verbatim>\<open>ethAmount\<close>, \<^verbatim>\<open>amountOutMin\<close>) are rationals, and the double-precision product
  \<^verbatim>\<open>BigInt(x * 1e18)\<close> is a parameter of the model (\<open>toWei\<close>), \<open>None\<close> where \<^verbatim>\<open>BigInt\<close>
  raises a RangeError. \<^verbatim>\<open>bigint\<close> is \<open>int\<close>; its division truncates towards zero
  (\<open>sdiv\<close>, \<open>smod\<close>) and raises a RangeError on a zero divisor.
\<close>

type_synonym address = string
type_synonym hex = string

definition zeroAddress :: address where
  "zeroAddress = ''0x0000000000000000000000000000000000000000''"

definition zeroHash :: hex where
  "zeroHash = ''0x0000000000000000000000000000000000000000000000000000000000000000''"

definition truthy :: "int \<Rightarrow> bool" where
  \<comment> \<open>a number used as a condition: every number but zero\<close>
  "truthy n = (n \<noteq> 0)"

definition js_rem_is_zero :: "int \<Rightarrow> int \<Rightarrow> bool" where
  \<comment> \<open>\<^verbatim>\<open>a % b === 0\<close>: the remainder has the sign of \<open>a\<close>, and \<^verbatim>\<open>a % 0\<close> is NaN\<close>
  "js_rem_is_zero a b = (b \<noteq> 0 \<and> a smod b = 0)"

fun starts_with :: "string \<Rightarrow> string \<Rightarrow> bool" where
  "starts_with s [] = True"
| "starts_with [] (c # cs) = False"
| "starts_with (x # xs) (c # cs) = (x = c \<and> starts_with xs cs)"

fun includes_str :: "string \<Rightarrow> string \<Rightarrow> bool" where
  \<comment> \<open>\<^verbatim>\<open>s.includes(sub)\<close>\<close>
  "includes_str [] sub = (sub = [])"
| "includes_str (x # xs) sub = (starts_with (x # xs) sub \<or> includes_str xs sub)"

fun string_of_nat :: "nat \<Rightarrow> string" where
  "string_of_nat n =
     (if n < 10 then [''0123456789'' ! n]
      else string_of_nat (n div 10) @ [''0123456789'' ! (n mod 10)])"

definition string_of_int :: "int \<Rightarrow> string" where
  "string_of_int i = (if i < 0 then CHR ''-'' # string_of_nat (nat (- i)) else string_of_nat (nat i))"

definition render_opt :: "int option \<Rightarrow> string" where
  \<comment> \<open>a template literal \<^verbatim>\<open>${x}\<close> of an optional number\<close>
  "render_opt x = (case x of None \<Rightarrow> ''undefined'' | Some i \<Rightarrow> string_of_int i)"

section \<open>The v4 token configuration (config/clankerTokenV4.ts)\<close>

record position =
  tickLower :: int
  tickUpper :: int
  positionBps :: int

datatype paired_token = WETH | PairedAddress address

record pool_cfg =
  pairedToken :: paired_token
  tickIfToken0IsClanker :: int
  tickSpacing :: int
  positions :: "position list"

record pool_extension =
  pe_address :: address
  pe_initData :: hex

datatype locker_choice = Locker | LockerAddress address

record locker_cfg =
  locker :: locker_choice
  lockerData :: hex

record vault_cfg =
  percentage :: int
  vault_lockupDuration :: int
  vault_vestingDuration :: int
  recipient :: "address option"

record airdrop_cfg =
  admin :: "address option"
  merkleRoot :: hex
  airdrop_lockupDuration :: int
  airdrop_vestingDuration :: int
  amount :: int

record pool_key =
  currency0 :: address
  currency1 :: address
  fee :: int
  pk_tickSpacing :: int
  hooks :: address

datatype devbuy_cfg =
    DevBuyV4 (ethAmount: rat) (poolKey: pool_key) (amountOutMin: rat)
  | DevBuyV3 (ethAmount: rat) (v3PoolFee: int) (amountOutMin: rat)

datatype fee_cfg =
    Static (clankerFee: int) (pairedFee: int)
  | Dynamic (baseFee: int) (maxFee: int) (referenceTickFilterPeriod: int) (resetPeriod: int)
      (resetTickFilter: int) (feeControlNumerator: int) (decayFilterBps: int)

record sniper_fees =
  startingFee :: int
  endingFee :: int
  secondsToDecay :: int

datatype fee_in = Both | Paired | Clanker

fun FeeInToInt :: "fee_in \<Rightarrow> int" where
  "FeeInToInt Both = 0"
| "FeeInToInt Paired = 1"
| "FeeInToInt Clanker = 2"

record reward_recipient =
  rr_admin :: address
  rr_recipient :: address
  bps :: int
  token :: fee_in

text \<open>
  The configuration with every default of the schema filled in: a request is given to the
  model as the value the schema's defaulting hands to its checks. \<open>metadata\<close> and
  \<open>socialContext\<close> (the field \<^verbatim>\<open>context\<close>) hold the JSON text that \<^verbatim>\<open>stringify\<close> makes of them.
\<close>

record token_cfg =
  name :: string
  symbol :: string
  image :: string
  chainId :: int
  tokenAdmin :: address
  metadata :: string
  socialContext :: string
  poolExtension :: pool_extension
  pool :: pool_cfg
  locker_of :: locker_cfg
  vault :: "vault_cfg option"
  airdrop :: "airdrop_cfg option"
  devBuy :: "devbuy_cfg option"
  fees :: fee_cfg
  sniperFees :: sniper_fees
  rewards :: "reward_recipient list option"
  vanity :: bool

subsection \<open>The deployment registry (utils/clankers, constants)\<close>

record related_v4 =
  rel_locker :: address
  rel_vault :: address
  rel_airdrop :: address
  rel_devbuy :: address
  rel_devbuyV3 :: "address option"
  feeStaticHook :: address
  feeStaticHookV2 :: "address option"
  feeDynamicHook :: address
  feeDynamicHookV2 :: "address option"
  mevModule :: address
  mevModuleV2 :: "address option"

record clanker_deployment =
  cd_address :: address
  related :: "related_v4 option"

text \<open>
  The constants and collaborators the converter imports and that are not part of these
  sources, taken as parameters: the total supply, the list of chains, the wrapped-ether
  address of a chain, the registry lookup, the address-mining service (\<open>Inl\<close> its failure)
  and the conversion of an ETH amount to wei.
\<close>

record env =
  DEFAULT_SUPPLY :: int
  Chains :: "int list"
  WETH_ADDRESSES :: "int \<Rightarrow> address"
  clankerConfigFor :: "int \<Rightarrow> clanker_deployment option"
  findVanityAddressV4 :: "token_cfg \<Rightarrow> clanker_deployment \<Rightarrow> string + (hex \<times> address)"
  toWei :: "rat \<Rightarrow> int option"

subsection \<open>Schema checks\<close>

type_synonym issue = string

definition check_min :: "string \<Rightarrow> int \<Rightarrow> int \<Rightarrow> issue list" where
  "check_min path lo v = (if v < lo then [path @ '': too small''] else [])"

definition check_max :: "string \<Rightarrow> int \<Rightarrow> int \<Rightarrow> issue list" where
  "check_max path hi v = (if hi < v then [path @ '': too big''] else [])"

definition refine :: "bool \<Rightarrow> string \<Rightarrow> issue list" where
  \<comment> \<open>\<^verbatim>\<open>.refine(f, {error})\<close>: the issue is raised when the callback's result is falsy\<close>
  "refine ok msg = (if ok then [] else [msg])"

definition position_issues :: "position \<Rightarrow> issue list" where
  "position_issues p =
     check_min ''positionBps'' 0 (positionBps p) @ check_max ''positionBps'' 10000 (positionBps p)"

definition positions_sum_callback :: "position list \<Rightarrow> int" where
  \<comment> \<open>\<^verbatim>\<open>v.reduce((agg, cur) => agg + cur.positionBps, 10_000)\<close>\<close>
  "positions_sum_callback v = foldl (\<lambda>agg cur. agg + positionBps cur) 10000 v"

definition positions_issues :: "position list \<Rightarrow> issue list" where
  "positions_issues v =
     concat (map position_issues v)
     @ (if length v < 1 then [''positions: too small''] else [])
     @ refine (truthy (positions_sum_callback v)) ''Positions must sum to 100%''"

definition pool_issues :: "pool_cfg \<Rightarrow> issue list" where
  "pool_issues v =
     positions_issues (positions v)
     @ refine (list_ex (\<lambda>p. tickLower p = tickIfToken0IsClanker v) (positions v))
         ''One position must be touching the starting tick.''
     @ refine (list_all (\<lambda>p. js_rem_is_zero (tickLower p) (tickSpacing v)
                           \<and> js_rem_is_zero (tickUpper p) (tickSpacing v)) (positions v))
         ''All positions must have ticks that are multiples of the tick spacing.''"

definition vault_issues :: "vault_cfg \<Rightarrow> issue list" where
  "vault_issues v =
     check_min ''percentage'' 0 (percentage v) @ check_max ''percentage'' 90 (percentage v)
     @ check_min ''lockupDuration'' (7 * 24 * 60 * 60) (vault_lockupDuration v)"

definition airdrop_issues :: "int \<Rightarrow> airdrop_cfg \<Rightarrow> issue list" where
  "airdrop_issues S v =
     check_min ''lockupDuration'' (24 * 60 * 60) (airdrop_lockupDuration v)
     @ check_min ''amount'' (((S * 25) sdiv 10000) sdiv 10 ^ 18) (amount v)
     @ check_max ''amount'' (((S * 9000) sdiv 10000) sdiv 10 ^ 18) (amount v)"

definition devbuy_issues :: "devbuy_cfg \<Rightarrow> issue list" where
  "devbuy_issues d =
     refine (0 < ethAmount d) ''If dev buy is enabled, the purchase amount must be > 0.''
     @ (case d of
          DevBuyV4 _ _ _ \<Rightarrow> []
        | DevBuyV3 _ f _ \<Rightarrow>
            refine (f \<in> set [100, 500, 3000, 10000])
              ''V3 pool fee must be one of: 100, 500, 3000, 10000'')"

definition fee_issues :: "fee_cfg \<Rightarrow> issue list" where
  "fee_issues f =
     (case f of
        Static c p \<Rightarrow>
          check_min ''clankerFee'' 0 c @ check_max ''clankerFee'' 2000 c
          @ check_min ''pairedFee'' 0 p @ check_max ''pairedFee'' 2000 p
      | Dynamic b m _ _ _ _ _ \<Rightarrow>
          check_min ''baseFee'' 25 b @ check_max ''baseFee'' 2000 b
          @ check_min ''maxFee'' 0 m @ check_max ''maxFee'' 3000 m)"

definition sniper_issues :: "sniper_fees \<Rightarrow> issue list" where
  "sniper_issues v =
     check_min ''startingFee'' 30000 (startingFee v) @ check_max ''startingFee'' 800000 (startingFee v)
     @ check_min ''endingFee'' 30000 (endingFee v) @ check_max ''endingFee'' 800000 (endingFee v)
     @ check_min ''secondsToDecay'' 1 (secondsToDecay v) @ check_max ''secondsToDecay'' 120 (secondsToDecay v)
     @ refine (endingFee v < startingFee v) ''Ending sniper fees must be less than the starting fees''"

definition recipients_issues :: "reward_recipient list \<Rightarrow> issue list" where
  "recipients_issues v =
     concat (map (\<lambda>r. check_min ''bps'' 0 (bps r) @ check_max ''bps'' 10000 (bps r)) v)
     @ (if length v < 1 then [''recipients: too small''] else [])
     @ refine (foldl (\<lambda>agg cur. agg + bps cur) 0 v = 10000)
         ''Recipient amounts must sum to exactly 100%.''"

definition on_option :: "('a \<Rightarrow> issue list) \<Rightarrow> 'a option \<Rightarrow> issue list" where
  \<comment> \<open>\<^verbatim>\<open>.optional()\<close>: an absent value raises no issue\<close>
  "on_option f x = (case x of None \<Rightarrow> [] | Some v \<Rightarrow> f v)"

definition clankerTokenV4_issues :: "env \<Rightarrow> token_cfg \<Rightarrow> issue list" where
  "clankerTokenV4_issues e c =
     refine (chainId c \<in> set (Chains e)) ''chainId: invalid value''
     @ refine (tokenAdmin c \<noteq> zeroAddress) ''Admin cannot be zero address''
     @ pool_issues (pool c)
     @ on_option vault_issues (vault c)
     @ on_option (airdrop_issues (DEFAULT_SUPPLY e)) (airdrop c)
     @ on_option devbuy_issues (devBuy c)
     @ fee_issues (fees c)
     @ sniper_issues (sniperFees c)
     @ on_option recipients_issues (rewards c)"

datatype conv_error =
    ZodError "issue list"
  | NoClankerConfig int
  | VanityFailed string
  | RangeError
  | PrecisionTooLow int int int int
  | PrecisionTooHigh int
  | DevBuyV3NotDeployed

definition clankerTokenV4_parse :: "env \<Rightarrow> token_cfg \<Rightarrow> conv_error + token_cfg" where
  "clankerTokenV4_parse e c =
     (case clankerTokenV4_issues e c of [] \<Rightarrow> Inr c | i # is \<Rightarrow> Inl (ZodError (i # is)))"

subsection \<open>Airdrop rounding\<close>

definition bpsAirdropped :: "int \<Rightarrow> int \<Rightarrow> int" where
  "bpsAirdropped S a = (a * 10000) sdiv S + (if (a * 10000) smod S \<noteq> 0 then 1 else 0)"

definition roundingVerificationAirdrop :: "int \<Rightarrow> int \<Rightarrow> int" where
  "roundingVerificationAirdrop S a = (bpsAirdropped S a * S) sdiv 10000"

definition roundedAirdropTooLow :: "int \<Rightarrow> int \<Rightarrow> bool" where
  "roundedAirdropTooLow a v = (a > v)"

definition roundedAirdropTooHigh :: "int \<Rightarrow> int \<Rightarrow> int \<Rightarrow> bool" where
  "roundedAirdropTooHigh S a v = (((v - a) * 10000) sdiv S > 1)"

definition airdropAmount :: "token_cfg \<Rightarrow> int" where
  \<comment> \<open>\<^verbatim>\<open>BigInt(cfg.airdrop?.amount || 0) * BigInt(1e18)\<close>\<close>
  "airdropAmount c = (case airdrop c of None \<Rightarrow> 0 | Some d \<Rightarrow> amount d) * 10 ^ 18"

definition airdrop_share :: "int \<Rightarrow> int \<Rightarrow> conv_error + int" where
  \<comment> \<open>lines 336 to 356 of the converter, from the amount in wei to the share in bps\<close>
  "airdrop_share S a =
     (if S = 0 then Inl RangeError
      else
        let b = bpsAirdropped S a;
            v = roundingVerificationAirdrop S a
        in if roundedAirdropTooLow a v then Inl (PrecisionTooLow a v (b sdiv 10000) (a - v))
           else if roundedAirdropTooHigh S a v then Inl (PrecisionTooHigh (v - a))
           else Inr b)"

subsection \<open>Fee encoding\<close>

text \<open>
  \<^verbatim>\<open>encodeAbiParameters\<close> belongs to the ABI library; a block of encoded data is modelled by
  the interface it is encoded for and the values given to the encoder, in their order.
\<close>

datatype fee_data =
    StaticFee_Instantiation int int
  | DynamicFee_Instantiation int int int int int int int

datatype pool_data =
    FeeDataOnly fee_data
  | PoolInitializationData address hex fee_data

fun feeData_of :: "pool_data \<Rightarrow> fee_data" where
  "feeData_of (FeeDataOnly d) = d"
| "feeData_of (PoolInitializationData _ _ d) = d"

definition encodeFeeConfig :: "token_cfg \<Rightarrow> related_v4 \<Rightarrow> address \<times> pool_data" where
  "encodeFeeConfig tokenConfig rel =
     (case fees tokenConfig of
        Static c p \<Rightarrow>
          (let feeData = StaticFee_Instantiation (c * 100) (p * 100)
           in case feeStaticHookV2 rel of
                Some h \<Rightarrow> (h, PoolInitializationData (pe_address (poolExtension tokenConfig))
                                 (pe_initData (poolExtension tokenConfig)) feeData)
              | None \<Rightarrow> (feeStaticHook rel, FeeDataOnly feeData))
      | Dynamic b m rtfp rp rtf fcn dfb \<Rightarrow>
          (let feeData = DynamicFee_Instantiation (b * 100) (m * 100) rtfp rp rtf fcn dfb
           in case feeDynamicHookV2 rel of
                Some h \<Rightarrow> (h, PoolInitializationData (pe_address (poolExtension tokenConfig))
                                 (pe_initData (poolExtension tokenConfig)) feeData)
              | None \<Rightarrow> (feeDynamicHook rel, FeeDataOnly feeData)))"

subsection \<open>Extensions\<close>

datatype extension_data =
    Vault_Instantiation address int int
  | AirdropV2_Instantiation address hex int int
  | Univ3EthDevBuy_Instantiation int int address
  | UniV4EthDevBuy_Instantiation pool_key int address

record extension_config =
  extension :: address
  msgValue :: int
  extensionBps :: int
  extensionData :: extension_data

datatype extension_kind = VaultExt | AirdropExt | DevBuyExt

fun kind_of_data :: "extension_data \<Rightarrow> extension_kind" where
  "kind_of_data (Vault_Instantiation _ _ _) = VaultExt"
| "kind_of_data (AirdropV2_Instantiation _ _ _ _) = AirdropExt"
| "kind_of_data (Univ3EthDevBuy_Instantiation _ _ _) = DevBuyExt"
| "kind_of_data (UniV4EthDevBuy_Instantiation _ _ _) = DevBuyExt"

definition extension_kind_of :: "extension_config \<Rightarrow> extension_kind" where
  "extension_kind_of x = kind_of_data (extensionData x)"

definition encodeDevBuyExtension ::
  "env \<Rightarrow> token_cfg \<Rightarrow> related_v4 \<Rightarrow> conv_error + extension_config list" where
  "encodeDevBuyExtension e tokenConfig rel =
     (case devBuy tokenConfig of
        None \<Rightarrow> Inr []
      | Some (DevBuyV3 eth f aom) \<Rightarrow>
          (case rel_devbuyV3 rel of
             None \<Rightarrow> Inl DevBuyV3NotDeployed
           | Some d3 \<Rightarrow>
               (case toWei e eth of
                  None \<Rightarrow> Inl RangeError
                | Some mv \<Rightarrow>
                    (case toWei e aom of
                       None \<Rightarrow> Inl RangeError
                     | Some m \<Rightarrow>
                         Inr [\<lparr>extension = d3, msgValue = mv, extensionBps = 0,
                               extensionData = Univ3EthDevBuy_Instantiation f m (tokenAdmin tokenConfig)\<rparr>])))
      | Some (DevBuyV4 eth k aom) \<Rightarrow>
          (case toWei e eth of
             None \<Rightarrow> Inl RangeError
           | Some mv \<Rightarrow>
               (case toWei e aom of
                  None \<Rightarrow> Inl RangeError
                | Some m \<Rightarrow>
                    Inr [\<lparr>extension = rel_devbuy rel, msgValue = mv, extensionBps = 0,
                          extensionData = UniV4EthDevBuy_Instantiation k m (tokenAdmin tokenConfig)\<rparr>])))"

definition vault_extension :: "token_cfg \<Rightarrow> related_v4 \<Rightarrow> extension_config list" where
  "vault_extension cfg rel =
     (case vault cfg of
        None \<Rightarrow> []
      | Some v \<Rightarrow>
          [\<lparr>extension = rel_vault rel, msgValue = 0, extensionBps = percentage v * 100,
            extensionData = Vault_Instantiation
              (case recipient v of None \<Rightarrow> tokenAdmin cfg | Some r \<Rightarrow> r)
              (vault_lockupDuration v) (vault_vestingDuration v)\<rparr>])"

definition airdrop_extension :: "token_cfg \<Rightarrow> related_v4 \<Rightarrow> int \<Rightarrow> extension_config list" where
  "airdrop_extension cfg rel b =
     (case airdrop cfg of
        None \<Rightarrow> []
      | Some d \<Rightarrow>
          [\<lparr>extension = rel_airdrop rel, msgValue = 0, extensionBps = b,
            extensionData = AirdropV2_Instantiation
              (case admin d of None \<Rightarrow> tokenAdmin cfg | Some r \<Rightarrow> r)
              (merkleRoot d) (airdrop_lockupDuration d) (airdrop_vestingDuration d)\<rparr>])"

subsection \<open>The converter\<close>

datatype mev_data = MevSniperAuction_InitData int int int | NoMevData

record deploy_args =
  tc_tokenAdmin :: address
  tc_name :: string
  tc_symbol :: string
  tc_salt :: hex
  tc_image :: string
  tc_metadata :: string
  tc_context :: string
  tc_originatingChainId :: int
  lc_locker :: address
  lc_feePreference :: "int list"
  lc_rewardAdmins :: "address list"
  lc_rewardRecipients :: "address list"
  lc_rewardBps :: "int list"
  lc_tickLower :: "int list"
  lc_tickUpper :: "int list"
  lc_positionBps :: "int list"
  pc_pairedToken :: address
  pc_tickIfToken0IsClanker :: int
  pc_tickSpacing :: int
  pc_hook :: address
  pc_poolData :: pool_data
  mc_mevModule :: address
  mc_mevModuleData :: mev_data
  extensionConfigs :: "extension_config list"

record deploy_tx =
  tx_address :: address
  tx_args :: deploy_args
  tx_value :: int
  tx_expectedAddress :: "address option"
  tx_chainId :: int

definition default_rewards :: "token_cfg \<Rightarrow> reward_recipient list" where
  "default_rewards cfg =
     (case rewards cfg of
        Some r \<Rightarrow> r
      | None \<Rightarrow> [\<lparr>rr_admin = tokenAdmin cfg, rr_recipient = tokenAdmin cfg, bps = 10000, token = Both\<rparr>])"

definition vanity_salt :: "env \<Rightarrow> token_cfg \<Rightarrow> clanker_deployment \<Rightarrow> conv_error + (hex \<times> address option)" where
  "vanity_salt e cfg cc =
     (if vanity cfg
      then (case findVanityAddressV4 e cfg cc of
              Inl msg \<Rightarrow> Inl (VanityFailed msg)
            | Inr (s, t) \<Rightarrow> Inr (s, Some t))
      else Inr (zeroHash, None))"

definition devbuy_value :: "env \<Rightarrow> token_cfg \<Rightarrow> conv_error + int" where
  \<comment> \<open>\<^verbatim>\<open>cfg.devBuy ? BigInt(cfg.devBuy?.ethAmount * 1e18) : 0n\<close>\<close>
  "devbuy_value e cfg =
     (case devBuy cfg of
        None \<Rightarrow> Inr 0
      | Some d \<Rightarrow> (case toWei e (ethAmount d) of None \<Rightarrow> Inl RangeError | Some w \<Rightarrow> Inr w))"

definition build_tx ::
  "env \<Rightarrow> token_cfg \<Rightarrow> clanker_deployment \<Rightarrow> related_v4 \<Rightarrow> hex \<Rightarrow> address option \<Rightarrow> int
     \<Rightarrow> extension_config list \<Rightarrow> int \<Rightarrow> deploy_tx" where
  "build_tx e cfg cc rel salt expected b devbuy val =
     (let (hook, poolData) = encodeFeeConfig cfg rel;
          rs = default_rewards cfg
      in \<lparr>tx_address = cd_address cc,
          tx_args =
            \<lparr>tc_tokenAdmin = tokenAdmin cfg, tc_name = name cfg, tc_symbol = symbol cfg,
             tc_salt = salt, tc_image = image cfg, tc_metadata = metadata cfg,
             tc_context = socialContext cfg, tc_originatingChainId = chainId cfg,
             lc_locker = (case locker (locker_of cfg) of Locker \<Rightarrow> rel_locker rel | LockerAddress a \<Rightarrow> a),
             lc_feePreference = map (\<lambda>r. FeeInToInt (token r)) rs,
             lc_rewardAdmins = map rr_admin rs,
             lc_rewardRecipients = map rr_recipient rs,
             lc_rewardBps = map bps rs,
             lc_tickLower = map tickLower (positions (pool cfg)),
             lc_tickUpper = map tickUpper (positions (pool cfg)),
             lc_positionBps = map positionBps (positions (pool cfg)),
             pc_pairedToken = (case pairedToken (pool cfg) of
                                 WETH \<Rightarrow> WETH_ADDRESSES e (chainId cfg) | PairedAddress a \<Rightarrow> a),
             pc_tickIfToken0IsClanker = tickIfToken0IsClanker (pool cfg),
             pc_tickSpacing = tickSpacing (pool cfg),
             pc_hook = hook,
             pc_poolData = poolData,
             mc_mevModule = (case mevModuleV2 rel of Some m \<Rightarrow> m | None \<Rightarrow> mevModule rel),
             mc_mevModuleData =
               (case mevModuleV2 rel of
                  Some _ \<Rightarrow> MevSniperAuction_InitData (startingFee (sniperFees cfg))
                              (endingFee (sniperFees cfg)) (secondsToDecay (sniperFees cfg))
                | None \<Rightarrow> NoMevData),
             extensionConfigs = vault_extension cfg rel @ airdrop_extension cfg rel b @ devbuy\<rparr>,
          tx_value = val,
          tx_expectedAddress = expected,
          tx_chainId = chainId cfg\<rparr>)"

definition clankerTokenV4Converter :: "env \<Rightarrow> token_cfg \<Rightarrow> conv_error + deploy_tx" where
  "clankerTokenV4Converter e config =
     (case clankerTokenV4_parse e config of
        Inl err \<Rightarrow> Inl err
      | Inr cfg \<Rightarrow>
     (case clankerConfigFor e (chainId cfg) of
        None \<Rightarrow> Inl (NoClankerConfig (chainId cfg))
      | Some cc \<Rightarrow>
     (case related cc of
        None \<Rightarrow> Inl (NoClankerConfig (chainId cfg))
      | Some rel \<Rightarrow>
     (case vanity_salt e cfg cc of
        Inl err \<Rightarrow> Inl err
      | Inr (salt, expected) \<Rightarrow>
     (case airdrop_share (DEFAULT_SUPPLY e) (airdropAmount cfg) of
        Inl err \<Rightarrow> Inl err
      | Inr b \<Rightarrow>
     (case encodeDevBuyExtension e cfg rel of
        Inl err \<Rightarrow> Inl err
      | Inr devbuy \<Rightarrow>
     (case devbuy_value e cfg of
        Inl err \<Rightarrow> Inl err
      | Inr val \<Rightarrow> Inr (build_tx e cfg cc rel salt expected b devbuy val))))))))"

section \<open>Error classification (utils/errors)\<close>

text \<open>
  A thrown value is either not an instance of \<^verbatim>\<open>Error\<close> (kept by the text that a template
  literal makes of it) or an error object: its class, its message and its \<^verbatim>\<open>cause\<close>. The
  classes are \<^verbatim>\<open>Error\<close> itself and the ABI library's \<^verbatim>\<open>BaseError\<close> with the two subclasses
  the classifier looks for. A revert carries \<^verbatim>\<open>data?.errorName\<close> and \<^verbatim>\<open>signature\<close>, each
  possibly undefined.
\<close>

datatype error_class =
    PlainError
  | BaseError
  | ContractFunctionRevertedError "string option" "hex option"
  | InsufficientFundsError

datatype thrown =
    NotAnError string
  | ErrorObject error_class string "thrown option"

fun instanceof_Error :: "thrown \<Rightarrow> bool" where
  "instanceof_Error (NotAnError _) = False"
| "instanceof_Error (ErrorObject _ _ _) = True"

fun instanceof_BaseError :: "thrown \<Rightarrow> bool" where
  "instanceof_BaseError (ErrorObject PlainError _ _) = False"
| "instanceof_BaseError (ErrorObject _ _ _) = True"
| "instanceof_BaseError (NotAnError _) = False"

fun instanceof_Reverted :: "thrown \<Rightarrow> bool" where
  "instanceof_Reverted (ErrorObject (ContractFunctionRevertedError _ _) _ _) = True"
| "instanceof_Reverted _ = False"

fun instanceof_InsufficientFunds :: "thrown \<Rightarrow> bool" where
  "instanceof_InsufficientFunds (ErrorObject InsufficientFundsError _ _) = True"
| "instanceof_InsufficientFunds _ = False"

fun walk :: "(thrown \<Rightarrow> bool) \<Rightarrow> thrown \<Rightarrow> thrown option" where
  \<comment> \<open>\<^verbatim>\<open>e.walk(fn)\<close> of the ABI library: the first error of the cause chain that satisfies
      \<open>fn\<close>, null when there is none\<close>
  "walk fn (NotAnError s) = (if fn (NotAnError s) then Some (NotAnError s) else None)"
| "walk fn (ErrorObject c m None) =
     (if fn (ErrorObject c m None) then Some (ErrorObject c m None) else None)"
| "walk fn (ErrorObject c m (Some cause)) =
     (if fn (ErrorObject c m (Some cause)) then Some (ErrorObject c m (Some cause))
      else walk fn cause)"

datatype ClankerErrorType = caller | state | unknown

record ClankerErrorData =
  errorType :: ClankerErrorType
  label :: string
  rawName :: string

text \<open>
  The two tables are plain object literals, and the classifier reads them with
  \<^verbatim>\<open>table[key]\<close>. Such a read finds the table's own entries and, for a key that is the name
  of a property of \<^verbatim>\<open>Object.prototype\<close>, the inherited value: a function, or the prototype
  itself for \<^verbatim>\<open>__proto__\<close>, all truthy and none with a \<^verbatim>\<open>type\<close>, a \<^verbatim>\<open>label\<close> or a
  \<^verbatim>\<open>rawName\<close>. The \<^verbatim>\<open>data\<close> of a classified error is therefore either an entry or such an
  inherited value, kept by the key that found it.
\<close>

definition Object_prototype_names :: "string list" where
  "Object_prototype_names =
     [''constructor'', ''__defineGetter__'', ''__defineSetter__'', ''hasOwnProperty'',
      ''__lookupGetter__'', ''__lookupSetter__'', ''isPrototypeOf'', ''propertyIsEnumerable'',
      ''toString'', ''valueOf'', ''__proto__'', ''toLocaleString'']"

datatype data_value = Data ClankerErrorData | InheritedValue string

fun type_of_data :: "data_value \<Rightarrow> ClankerErrorType option" where
  \<comment> \<open>\<^verbatim>\<open>data.type\<close>, \<open>None\<close> where it is undefined\<close>
  "type_of_data (Data d) = Some (errorType d)"
| "type_of_data (InheritedValue _) = None"

fun label_of_data :: "data_value \<Rightarrow> string option" where
  "label_of_data (Data d) = Some (label d)"
| "label_of_data (InheritedValue _) = None"

fun rawName_of_data :: "data_value \<Rightarrow> string option" where
  "rawName_of_data (Data d) = Some (rawName d)"
| "rawName_of_data (InheritedValue _) = None"

definition plain_object_get :: "(string \<Rightarrow> ClankerErrorData option) \<Rightarrow> string \<Rightarrow> data_value option" where
  \<comment> \<open>\<^verbatim>\<open>table[key]\<close> used as a condition: \<open>None\<close> where the read gives \<^verbatim>\<open>undefined\<close>\<close>
  "plain_object_get table key =
     (case table key of
        Some d \<Rightarrow> Some (Data d)
      | None \<Rightarrow> if key \<in> set Object_prototype_names then Some (InheritedValue key) else None)"

record ClankerError =
  wrapped :: thrown
  data :: data_value

definition ClankerError_unknown :: "thrown \<Rightarrow> string option \<Rightarrow> ClankerError" where
  \<comment> \<open>\<^verbatim>\<open>rawName: name || 'unknown'\<close>: an absent or empty name gives \<^verbatim>\<open>'unknown'\<close>\<close>
  "ClankerError_unknown e nm =
     \<lparr>wrapped = e,
      data = Data \<lparr>errorType = unknown, label = ''Something went wrong'',
                   rawName = (case nm of None \<Rightarrow> ''unknown''
                              | Some n \<Rightarrow> if n = [] then ''unknown'' else n)\<rparr>\<rparr>"

definition SignatureToError :: "hex \<Rightarrow> ClankerErrorData option" where
  \<comment> \<open>the own entries of the object literal\<close>
  "SignatureToError sel =
     (if sel = ''0x7e5ba1ad''
      then Some \<lparr>errorType = state, label = ''Hook not enabled.'', rawName = ''HookNotEnabled''\<rparr>
      else if sel = ''0x8b063d73''
      then Some \<lparr>errorType = state, label = ''Too little received (likely dev buy).'',
                 rawName = ''V4TooLittleReceived''\<rparr>
      else None)"

definition ErrorMapping :: "string \<Rightarrow> ClankerErrorData option" where
  \<comment> \<open>the own entries of the object literal\<close>
  "ErrorMapping nm =
     (if nm = ''NoFeesToClaim''
      then Some \<lparr>errorType = state, label = ''No fees to claim'', rawName = ''NoFeesToClaim''\<rparr>
      else if nm = ''InvalidVaultConfiguration''
      then Some \<lparr>errorType = caller, label = ''Invalid vault configuration'', rawName = ''InvalidVault''\<rparr>
      else if nm = ''BaseFeeTooLow''
      then Some \<lparr>errorType = caller, label = ''Base fee is set too low'', rawName = ''BaseFeeTooLow''\<rparr>
      else None)"

definition understandErrorCode :: "hex \<Rightarrow> ClankerError" where
  "understandErrorCode e =
     \<lparr>wrapped = ErrorObject PlainError e None,
      data = (case plain_object_get SignatureToError e of
                Some d \<Rightarrow> d
              | None \<Rightarrow> Data \<lparr>errorType = caller, label = ''Contract error.'',
                               rawName = ''Unknown hex: '' @ e\<rparr>)\<rparr>"

definition classify_revert :: "thrown \<Rightarrow> string option \<Rightarrow> hex option \<Rightarrow> ClankerError" where
  \<comment> \<open>the body of the branch taken when the cause chain holds a revert\<close>
  "classify_revert e dataName sig =
     (let errorName = (case dataName of None \<Rightarrow> [] | Some n \<Rightarrow> n)
      in case plain_object_get ErrorMapping errorName of
           Some mapping \<Rightarrow> \<lparr>wrapped = e, data = mapping\<rparr>
         | None \<Rightarrow>
             (case plain_object_get SignatureToError
                     (case sig of None \<Rightarrow> ''0x'' | Some s \<Rightarrow> if s = [] then ''0x'' else s) of
                Some signatureToError \<Rightarrow> \<lparr>wrapped = e, data = signatureToError\<rparr>
              | None \<Rightarrow> ClankerError_unknown e (Some errorName)))"

definition understandError :: "thrown \<Rightarrow> ClankerError" where
  "understandError e =
     (if \<not> instanceof_Error e
        then (case e of NotAnError s \<Rightarrow> ClankerError_unknown (ErrorObject PlainError s None) None
                      | _ \<Rightarrow> ClankerError_unknown e None)
      else if \<not> instanceof_BaseError e then ClankerError_unknown e None
      else
        (case walk instanceof_Reverted e of
           Some (ErrorObject (ContractFunctionRevertedError dataName sig) _ _) \<Rightarrow>
             classify_revert e dataName sig
         | _ \<Rightarrow>
             (case walk instanceof_InsufficientFunds e of
                Some fundsError \<Rightarrow>
                  \<lparr>wrapped = fundsError,
                   data = Data \<lparr>errorType = caller, label = ''Insufficient funds.'',
                                rawName = ''InsufficientFundsError''\<rparr>\<rparr>
              | None \<Rightarrow> ClankerError_unknown e None)))"

section \<open>The execution pipeline (utils/write-clanker-contracts, deployment/deploy)\<close>

text \<open>
  A transaction is kept with the fields the pipeline reads or writes; \<open>'a\<close> is the type of
  its arguments. The chain client and the wallet are collaborators: each call is a function
  of the model's parameters that either returns (\<open>Inr\<close>) or throws (\<open>Inl\<close>). The calls made
  are recorded, in order, in a trace that every operation takes and returns.
\<close>

record 'a tx_config =
  to_address :: address
  functionName :: string
  args :: 'a
  gas :: "int option"
  txValue :: "int option"
  txChainId :: "int option"
  expectedAddress :: "address option"

datatype receipt_log = TokenCreated (tokenAddress: address) | OtherLog string

record 'a public_client =
  pc_chain :: "int option"
  estimateContractGas :: "address option \<Rightarrow> 'a tx_config \<Rightarrow> thrown + int"
  simulateContract :: "address option \<Rightarrow> 'a tx_config \<Rightarrow> thrown + string"
  waitForTransactionReceipt :: "hex \<Rightarrow> thrown + receipt_log list"

record 'a wallet_client =
  account :: "address option"
  w_chain :: "int option"
  writeContract :: "'a tx_config \<Rightarrow> thrown + hex"

datatype 'a call =
    EstimateGas "address option" "'a tx_config"
  | Simulate "address option" "'a tx_config"
  | Write "'a tx_config"
  | WaitForReceipt hex

fun is_Write :: "'a call \<Rightarrow> bool" where
  "is_Write (Write _) = True"
| "is_Write _ = False"

text \<open>
  \<^verbatim>\<open>ClankerResult<T>\<close>: the success fields, or all of them undefined and an error.
\<close>

record 'r ClankerResult =
  success :: "'r option"
  error :: "ClankerError option"

definition exactly_one :: "'r ClankerResult \<Rightarrow> bool" where
  "exactly_one r = ((success r = None) = (error r \<noteq> None))"

definition estimateGasClankerContract ::
  "'a public_client \<Rightarrow> address option \<Rightarrow> 'a tx_config \<Rightarrow> 'a call list
     \<Rightarrow> (thrown + int ClankerResult) \<times> 'a call list" where
  "estimateGasClankerContract client acct tx tr =
     (case estimateContractGas client acct tx of
        Inr g \<Rightarrow> (Inr \<lparr>success = Some g, error = None\<rparr>, tr @ [EstimateGas acct tx])
      | Inl e \<Rightarrow> (Inr \<lparr>success = None, error = Some (understandError e)\<rparr>, tr @ [EstimateGas acct tx]))"

definition simulateClankerContract ::
  "'a public_client \<Rightarrow> address option \<Rightarrow> 'a tx_config \<Rightarrow> 'a call list
     \<Rightarrow> (thrown + string ClankerResult) \<times> 'a call list" where
  "simulateClankerContract client acct tx tr =
     (case simulateContract client acct tx of
        Inr res \<Rightarrow> (Inr \<lparr>success = Some res, error = None\<rparr>, tr @ [Simulate acct tx])
      | Inl e \<Rightarrow> (Inr \<lparr>success = None, error = Some (understandError e)\<rparr>, tr @ [Simulate acct tx]))"

definition submit ::
  "'a wallet_client \<Rightarrow> 'a tx_config \<Rightarrow> 'a call list \<Rightarrow> (thrown + hex ClankerResult) \<times> 'a call list" where
  \<comment> \<open>the \<^verbatim>\<open>try\<close> block of \<^verbatim>\<open>writeClankerContract\<close>\<close>
  "submit wallet tx tr =
     (case writeContract wallet tx of
        Inr txHash \<Rightarrow> (Inr \<lparr>success = Some txHash, error = None\<rparr>, tr @ [Write tx])
      | Inl e \<Rightarrow> (Inr \<lparr>success = None, error = Some (understandError e)\<rparr>, tr @ [Write tx]))"

definition writeClankerContract ::
  "'a public_client \<Rightarrow> 'a wallet_client \<Rightarrow> 'a tx_config \<Rightarrow> bool \<Rightarrow> 'a call list
     \<Rightarrow> (thrown + hex ClankerResult) \<times> 'a call list" where
  "writeClankerContract client wallet tx simulate tr =
     (if simulate
      then (case simulateClankerContract client (account wallet) tx tr of
              (Inl t, tr') \<Rightarrow> (Inl t, tr')
            | (Inr r, tr') \<Rightarrow>
                (case error r of
                   Some err \<Rightarrow> (Inr \<lparr>success = None, error = Some err\<rparr>, tr')
                 | None \<Rightarrow> submit wallet tx tr'))
      else submit wallet tx tr)"

definition usage_error :: "string \<Rightarrow> thrown" where
  \<comment> \<open>\<^verbatim>\<open>throw new Error(msg)\<close>\<close>
  "usage_error msg = ErrorObject PlainError msg None"

definition type_error :: "string \<Rightarrow> thrown" where
  \<comment> \<open>the TypeError the runtime raises on a read of, or arithmetic on, \<^verbatim>\<open>undefined\<close>\<close>
  "type_error msg = ErrorObject PlainError (''TypeError: '' @ msg) None"

definition simulateDeployToken ::
  "'a tx_config \<Rightarrow> address option \<Rightarrow> 'a public_client \<Rightarrow> 'a call list
     \<Rightarrow> (thrown + string ClankerResult) \<times> 'a call list" where
  "simulateDeployToken tx acct publicClient tr =
     (if txChainId tx \<noteq> pc_chain publicClient
      then (Inl (usage_error (''Token chainId doesn't match public client chainId: ''
                   @ render_opt (txChainId tx) @ '' != '' @ render_opt (pc_chain publicClient))), tr)
      else simulateClankerContract publicClient acct tx tr)"

definition deployToken ::
  "'a tx_config \<Rightarrow> 'a wallet_client option \<Rightarrow> 'a public_client \<Rightarrow> 'a call list
     \<Rightarrow> (thrown + hex ClankerResult) \<times> 'a call list" where
  "deployToken tx wallet_opt publicClient tr =
     (case wallet_opt of
        None \<Rightarrow> (Inl (usage_error ''Wallet account required for deployToken''), tr)
      | Some wallet \<Rightarrow>
     (case account wallet of
        None \<Rightarrow> (Inl (usage_error ''Wallet account required for deployToken''), tr)
      | Some acct \<Rightarrow>
     (if txChainId tx \<noteq> pc_chain publicClient
      then (Inl (usage_error (''Token chainId doesn't match public client chainId: ''
                   @ render_opt (txChainId tx) @ '' != '' @ render_opt (pc_chain publicClient))), tr)
      else if txChainId tx \<noteq> w_chain wallet
      then (Inl (usage_error (''Token chainId doesn't match wallet chainId: ''
                   @ render_opt (txChainId tx) @ '' != '' @ render_opt (w_chain wallet))), tr)
      else
        (case estimateGasClankerContract publicClient (Some acct) tx tr of
           (Inl t, tr1) \<Rightarrow> (Inl t, tr1)
         | (Inr gr, tr1) \<Rightarrow>
             (case error gr of
                Some gasError \<Rightarrow> (Inr \<lparr>success = None, error = Some gasError\<rparr>, tr1)
              | None \<Rightarrow>
                  (case success gr of
                     None \<Rightarrow> (Inl (type_error ''Cannot mix BigInt and other types''), tr1)
                   | Some g \<Rightarrow>
                       (case writeClankerContract publicClient wallet
                               (tx\<lparr>gas := Some ((g * 12) sdiv 10)\<rparr>) True tr1 of
                          (Inl t, tr2) \<Rightarrow> (Inl t, tr2)
                        | (Inr wr, tr2) \<Rightarrow>
                            (case error wr of
                               Some txError \<Rightarrow> (Inr \<lparr>success = None, error = Some txError\<rparr>, tr2)
                             | None \<Rightarrow> (Inr \<lparr>success = success wr, error = None\<rparr>, tr2)))))))))"

fun parseEventLogs_TokenCreated :: "receipt_log list \<Rightarrow> address list" where
  \<comment> \<open>\<^verbatim>\<open>parseEventLogs({abi, eventName: 'TokenCreated', logs})\<close>: the entries that decode as
      the event, in the receipt's order, each by its \<^verbatim>\<open>args.tokenAddress\<close>\<close>
  "parseEventLogs_TokenCreated [] = []"
| "parseEventLogs_TokenCreated (TokenCreated a # ls) = a # parseEventLogs_TokenCreated ls"
| "parseEventLogs_TokenCreated (OtherLog _ # ls) = parseEventLogs_TokenCreated ls"

definition waitForTransaction ::
  "'a public_client \<Rightarrow> hex \<Rightarrow> 'a call list \<Rightarrow> (thrown + address ClankerResult) \<times> 'a call list" where
  \<comment> \<open>the closure that \<^verbatim>\<open>deployToken\<close> returns beside the hash \<open>txHash\<close>\<close>
  "waitForTransaction publicClient txHash tr =
     (case waitForTransactionReceipt publicClient txHash of
        Inl t \<Rightarrow> (Inl t, tr @ [WaitForReceipt txHash])
      | Inr receipt_logs \<Rightarrow>
          (case parseEventLogs_TokenCreated receipt_logs of
             [] \<Rightarrow> (Inl (type_error ''Cannot read properties of undefined (reading 'args')''),
                     tr @ [WaitForReceipt txHash])
           | a # _ \<Rightarrow> (Inr \<lparr>success = Some a, error = None\<rparr>, tr @ [WaitForReceipt txHash])))"

section \<open>Reading the vault (Clanker.getVaultClaimableAmount)\<close>

text \<open>
  What the \<^verbatim>\<open>catch\<close> clause inspects of a caught value: whether it is falsy, whether it is
  an object, and its \<^verbatim>\<open>name\<close> and \<^verbatim>\<open>message\<close> properties, each absent, a string or a value
  of another type.
\<close>

datatype property = Absent | StringValue string | OtherValue

datatype caught = FalsyValue | TruthyPrimitive string | ObjectValue property property

record vault_client =
  vc_chain :: "int option"
  readContract :: "address \<Rightarrow> string \<Rightarrow> address \<Rightarrow> caught + int"

definition base_chain_id :: int where
  "base_chain_id = 8453"

definition returned_no_data :: "caught \<Rightarrow> bool" where
  "returned_no_data err =
     (case err of
        ObjectValue (StringValue nm) (StringValue msg) \<Rightarrow>
          (nm = ''ContractFunctionExecutionError'' \<or> nm = ''ContractFunctionZeroDataError'')
          \<and> includes_str msg ''returned no data''
      | _ \<Rightarrow> False)"

definition new_Error :: "string \<Rightarrow> caught" where
  "new_Error msg = ObjectValue (StringValue ''Error'') (StringValue msg)"

definition getVaultClaimableAmount ::
  "vault_client option \<Rightarrow> (int \<Rightarrow> clanker_deployment option) \<Rightarrow> address \<Rightarrow> caught + int" where
  "getVaultClaimableAmount publicClient configFor tok =
     (case publicClient of
        None \<Rightarrow> Inl (new_Error ''Public client required'')
      | Some client \<Rightarrow>
          (let chain_id = (case vc_chain client of None \<Rightarrow> base_chain_id | Some c \<Rightarrow> c)
           in case configFor chain_id of
                None \<Rightarrow> Inl (new_Error (''Clanker is not ready on '' @ string_of_int chain_id))
              | Some config \<Rightarrow>
                  (case related config of
                     None \<Rightarrow> Inl (ObjectValue (StringValue ''TypeError'')
                                    (StringValue ''Cannot read properties of undefined (reading 'vault')''))
                   | Some rel \<Rightarrow>
                       (case readContract client (rel_vault rel) ''amountAvailableToClaim'' tok of
                          Inr v \<Rightarrow> Inr v
                        | Inl err \<Rightarrow> if returned_no_data err then Inr 0 else Inl err))))"

section \<open>Sample values\<close>

text \<open>
  A registry entry, an environment with a total supply of 100 billion tokens of 18 decimals,
  and a configuration with a vault and a dev buy, parameterised by its liquidity positions.
\<close>

definition example_related :: related_v4 where
  "example_related =
     \<lparr>rel_locker = ''0xlocker'', rel_vault = ''0xvault'', rel_airdrop = ''0xairdrop'',
      rel_devbuy = ''0xdevbuy'', rel_devbuyV3 = None,
      feeStaticHook = ''0xstatic'', feeStaticHookV2 = Some ''0xstaticV2'',
      feeDynamicHook = ''0xdynamic'', feeDynamicHookV2 = None,
      mevModule = ''0xmev'', mevModuleV2 = Some ''0xmevV2''\<rparr>"

definition example_env :: env where
  "example_env =
     \<lparr>DEFAULT_SUPPLY = 100000000000 * 10 ^ 18,
      Chains = [8453, 84532],
      WETH_ADDRESSES = (\<lambda>_. ''0x4200000000000000000000000000000000000006''),
      clankerConfigFor = (\<lambda>c. if c = 8453
         then Some \<lparr>cd_address = ''0xfactory'', related = Some example_related\<rparr> else None),
      findVanityAddressV4 = (\<lambda>_ _. Inl ''offline''),
      toWei = (\<lambda>x. if x = 0 then Some 0 else if x = 1 then Some (10 ^ 18) else None)\<rparr>"

definition example_cfg :: "position list \<Rightarrow> token_cfg" where
  "example_cfg ps =
     \<lparr>name = ''My Token'', symbol = ''MTK'', image = [], chainId = 8453,
      tokenAdmin = ''0x0000000000000000000000000000000000000001'',
      metadata = [], socialContext = ''{}'',
      poolExtension = \<lparr>pe_address = zeroAddress, pe_initData = ''0x''\<rparr>,
      pool = \<lparr>pairedToken = WETH, tickIfToken0IsClanker = - 230400, tickSpacing = 200,
              positions = ps\<rparr>,
      locker_of = \<lparr>locker = Locker, lockerData = ''0x''\<rparr>,
      vault = Some \<lparr>percentage = 10, vault_lockupDuration = 604800, vault_vestingDuration = 0,
                    recipient = None\<rparr>,
      airdrop = None,
      devBuy = Some (DevBuyV4 1 \<lparr>currency0 = zeroAddress, currency1 = zeroAddress, fee = 0,
                                pk_tickSpacing = 0, hooks = zeroAddress\<rparr> 0),
      fees = Static 100 200,
      sniperFees = \<lparr>startingFee = 666777, endingFee = 41673, secondsToDecay = 15\<rparr>,
      rewards = None,
      vanity = False\<rparr>"


subsection \<open>Classes of converter errors\<close>

fun under_allocation :: "conv_error \<Rightarrow> bool" where
  "under_allocation (PrecisionTooLow _ _ _ _) = True"
| "under_allocation _ = False"

fun over_allocation :: "conv_error \<Rightarrow> bool" where
  "over_allocation (PrecisionTooHigh _) = True"
| "over_allocation _ = False"

definition raises :: "(conv_error \<Rightarrow> bool) \<Rightarrow> conv_error + 'a \<Rightarrow> bool" where
  "raises P r = (case r of Inl err \<Rightarrow> P err | Inr _ \<Rightarrow> False)"


subsection \<open>Sample collaborators\<close>

text \<open>
  A failure whose cause is a revert, a transaction, and a chain client and a wallet whose
  calls return what they are given.
\<close>

definition example_revert :: "string \<Rightarrow> hex \<Rightarrow> thrown" where
  \<comment> \<open>a contract-call failure whose cause is a revert with this name and selector\<close>
  "example_revert n s =
     ErrorObject BaseError ''The contract function reverted''
       (Some (ErrorObject (ContractFunctionRevertedError (Some n) (Some s)) ''reverted'' None))"

definition example_tx :: "string tx_config" where
  "example_tx =
     \<lparr>to_address = ''0xfactory'', functionName = ''deployToken'', args = ''args'',
      gas = None, txValue = Some 0, txChainId = Some 8453, expectedAddress = None\<rparr>"

definition example_client ::
  "(thrown + int) \<Rightarrow> (thrown + string) \<Rightarrow> receipt_log list \<Rightarrow> string public_client" where
  "example_client g sim logs =
     \<lparr>pc_chain = Some 8453, estimateContractGas = (\<lambda>_ _. g), simulateContract = (\<lambda>_ _. sim),
      waitForTransactionReceipt = (\<lambda>_. Inr logs)\<rparr>"

definition example_wallet :: "(thrown + hex) \<Rightarrow> string wallet_client" where
  "example_wallet w = \<lparr>account = Some ''0xdeployer'', w_chain = Some 8453, writeContract = (\<lambda>_. w)\<rparr>"

definition example_vault_client :: "caught \<Rightarrow> vault_client" where
  "example_vault_client err = \<lparr>vc_chain = None, readContract = (\<lambda>_ _ _. Inl err)\<rparr>"

section \<open>Notions used in the statements\<close>

definition present :: "'a option \<Rightarrow> extension_kind \<Rightarrow> extension_kind list" where
  "present x k = (case x of None \<Rightarrow> [] | Some _ \<Rightarrow> [k])"

definition revert_found :: "thrown \<Rightarrow> string option \<Rightarrow> hex option \<Rightarrow> bool" where
  \<comment> \<open>\<open>e\<close> is a \<^verbatim>\<open>BaseError\<close> and the first revert of its cause chain carries this name and
      this selector\<close>
  "revert_found e dataName sig =
     (instanceof_BaseError e
      \<and> (case walk instanceof_Reverted e of
            Some (ErrorObject (ContractFunctionRevertedError n s) _ _) \<Rightarrow> n = dataName \<and> s = sig
          | _ \<Rightarrow> False))"

definition failed_with :: "thrown \<Rightarrow> 'r ClankerResult" where
  "failed_with e = \<lparr>success = None, error = Some (understandError e)\<rparr>"

section \<open>Auxiliary facts\<close>

lemma sdiv_nonneg: "0 \<le> k \<Longrightarrow> 0 < l \<Longrightarrow> k sdiv l = k div (l::int)"
  by (simp add: signed_divide_int_def sgn_if)

lemma smod_nonneg: "0 \<le> k \<Longrightarrow> 0 < l \<Longrightarrow> k smod l = k mod (l::int)"
  by (simp add: signed_modulo_int_def sgn_if)

lemma bpsAirdropped_div:
  assumes "0 < S" "0 \<le> a"
  shows "bpsAirdropped S a = (a * 10000) div S + (if (a * 10000) mod S \<noteq> 0 then 1 else 0)"
  using assms by (simp add: bpsAirdropped_def sdiv_nonneg smod_nonneg)

lemma ceil_div_int:
  assumes "0 < (S::int)"
  shows "\<lceil>real_of_int x / real_of_int S\<rceil> = x div S + (if x mod S \<noteq> 0 then 1 else 0)"
proof -
  have "\<lceil>real_of_int x / real_of_int S\<rceil> = - (- x div S)" by (rule ceiling_divide_eq_div)
  also have "\<dots> = x div S + (if x mod S \<noteq> 0 then 1 else 0)"
    using assms by (simp add: zdiv_zminus1_eq_if)
  finally show ?thesis .
qed

lemma bps_times_supply_bounds:
  assumes "0 < S" "0 \<le> a"
  shows "a * 10000 \<le> bpsAirdropped S a * S" and "bpsAirdropped S a * S < a * 10000 + S"
proof -
  let ?x = "a * 10000"
  have x: "?x = (?x div S) * S + ?x mod S" by simp
  have m: "0 \<le> ?x mod S" "?x mod S < S" using assms by simp_all
  show "a * 10000 \<le> bpsAirdropped S a * S"
  proof (cases "?x mod S = 0")
    case True
    then show ?thesis using assms x by (simp add: bpsAirdropped_div)
  next
    case False
    have "bpsAirdropped S a * S = (?x div S) * S + S"
      using assms False by (simp add: bpsAirdropped_div algebra_simps)
    then show ?thesis using x m by linarith
  qed
  show "bpsAirdropped S a * S < a * 10000 + S"
  proof (cases "?x mod S = 0")
    case True
    then show ?thesis using assms x by (simp add: bpsAirdropped_div)
  next
    case False
    have "bpsAirdropped S a * S = (?x div S) * S + S"
      using assms False by (simp add: bpsAirdropped_div algebra_simps)
    moreover have "0 < ?x mod S" using False m by linarith
    ultimately show ?thesis using x by linarith
  qed
qed

lemma verification_bounds:
  assumes "0 < S" "0 \<le> a"
  shows "a \<le> roundingVerificationAirdrop S a"
    and "(roundingVerificationAirdrop S a - a) * 10000 < S"
proof -
  let ?b = "bpsAirdropped S a"
  have lo: "a * 10000 \<le> ?b * S" and hi: "?b * S < a * 10000 + S"
    using bps_times_supply_bounds [OF assms] by simp_all
  have nn: "0 \<le> ?b * S" using lo assms by (smt (verit) mult_nonneg_nonneg)
  have v: "roundingVerificationAirdrop S a = (?b * S) div 10000"
    using nn by (simp add: roundingVerificationAirdrop_def sdiv_nonneg)
  have "(a * 10000) div 10000 \<le> (?b * S) div 10000" using lo by (rule zdiv_mono1) simp
  then show "a \<le> roundingVerificationAirdrop S a" using v by simp
  have "((?b * S) div 10000) * 10000 \<le> ?b * S"
  proof -
    have "((?b * S) div 10000) * 10000 + (?b * S) mod 10000 = ?b * S" by simp
    moreover have "0 \<le> (?b * S) mod 10000" by simp
    ultimately show ?thesis by linarith
  qed
  then show "(roundingVerificationAirdrop S a - a) * 10000 < S" using v hi by (simp add: algebra_simps)
qed

lemmas issue_defs = clankerTokenV4_issues_def pool_issues_def positions_issues_def
  position_issues_def positions_sum_callback_def vault_issues_def airdrop_issues_def
  devbuy_issues_def fee_issues_def sniper_issues_def recipients_issues_def on_option_def
  check_min_def check_max_def refine_def truthy_def js_rem_is_zero_def

lemma positions_refine_accepts:
  assumes "\<forall>p \<in> set v. 0 \<le> positionBps p"
  shows "truthy (positions_sum_callback v)"
proof -
  have "\<And>acc. 0 < acc \<Longrightarrow> \<forall>p \<in> set v. 0 \<le> positionBps p \<Longrightarrow> 0 < foldl (\<lambda>agg cur. agg + positionBps cur) acc v"
  proof (induction v)
    case Nil then show ?case by simp
  next
    case (Cons p ps)
    have "0 < acc + positionBps p" using Cons.prems by simp
    then show ?case using Cons by simp
  qed
  from this [of 10000] assms show ?thesis by (simp add: truthy_def positions_sum_callback_def)
qed

lemma sdiv_nonneg_nonneg: "0 \<le> k \<Longrightarrow> 0 < l \<Longrightarrow> 0 \<le> k sdiv (l::int)"
  by (simp add: sdiv_nonneg pos_imp_zdiv_nonneg_iff)

lemma parsed_amount_nonneg:
  assumes "clankerTokenV4_parse e c = Inr cfg" "0 < DEFAULT_SUPPLY e"
  shows "0 \<le> airdropAmount cfg"
proof (cases "airdrop c")
  case None
  moreover have "cfg = c" using assms(1) by (simp add: clankerTokenV4_parse_def split: list.splits)
  ultimately show ?thesis by (simp add: airdropAmount_def)
next
  case (Some d)
  have cfg: "cfg = c" and iss: "clankerTokenV4_issues e c = []"
    using assms(1) by (simp_all add: clankerTokenV4_parse_def split: list.splits)
  have "airdrop_issues (DEFAULT_SUPPLY e) d = []"
    using iss Some by (simp add: clankerTokenV4_issues_def on_option_def)
  then have "\<not> amount d < ((DEFAULT_SUPPLY e * 25) sdiv 10000) sdiv 10 ^ 18"
    by (auto simp add: airdrop_issues_def check_min_def split: if_splits)
  moreover have "0 \<le> ((DEFAULT_SUPPLY e * 25) sdiv 10000) sdiv 10 ^ 18"
    using assms(2) by (intro sdiv_nonneg_nonneg) simp_all
  ultimately have "0 \<le> amount d" by linarith
  then show ?thesis using Some cfg by (simp add: airdropAmount_def)
qed

lemma airdrop_share_not_too_low:
  assumes "0 < S" "0 \<le> a"
  shows "\<not> raises under_allocation (airdrop_share S a)"
  using assms verification_bounds(1) [OF assms]
  by (simp add: airdrop_share_def Let_def roundedAirdropTooLow_def raises_def)

lemma converter_not_too_low:
  assumes "0 < DEFAULT_SUPPLY e"
  shows "\<not> raises under_allocation (clankerTokenV4Converter e c)"
proof (cases "clankerTokenV4_parse e c")
  case (Inl err)
  then have "\<exists>is. err = ZodError is"
    by (auto simp add: clankerTokenV4_parse_def split: list.splits)
  then show ?thesis using Inl by (auto simp add: clankerTokenV4Converter_def raises_def)
next
  case (Inr cfg)
  have "\<not> raises under_allocation (airdrop_share (DEFAULT_SUPPLY e) (airdropAmount cfg))"
    using airdrop_share_not_too_low [OF assms parsed_amount_nonneg [OF Inr assms]] .
  then show ?thesis using Inr
    by (auto simp add: clankerTokenV4Converter_def vanity_salt_def encodeDevBuyExtension_def
        devbuy_value_def raises_def
        split: option.splits sum.splits if_splits devbuy_cfg.splits prod.splits)
qed


lemma sdiv_neg_pos_le_0: "k \<le> 0 \<Longrightarrow> 0 < l \<Longrightarrow> k sdiv (l::int) \<le> 0"
  by (simp add: signed_divide_int_def sgn_if pos_imp_zdiv_nonneg_iff)

lemma too_low_excludes_too_high:
  assumes "0 < S" "roundedAirdropTooLow a v"
  shows "\<not> roundedAirdropTooHigh S a v"
proof -
  have "(v - a) * 10000 \<le> 0" using assms(2) by (simp add: roundedAirdropTooLow_def)
  then have "((v - a) * 10000) sdiv S \<le> 0" using assms(1) by (rule sdiv_neg_pos_le_0)
  then show ?thesis by (simp add: roundedAirdropTooHigh_def)
qed

lemma truncation_between_one_and_two:
  assumes "0 < S" "S < x" "x < 2 * S"
  shows "x sdiv S = (1::int)"
proof -
  have z: "(x - S) div S = 0" by (rule div_pos_pos_trivial) (use assms in simp_all)
  have "x div S = (x - S + S) div S" by simp
  also have "\<dots> = (x - S) div S + 1" using assms(1) by (simp only: div_add_self2)
  finally have "x div S = 1" using z by simp
  then show ?thesis using assms by (simp add: sdiv_nonneg)
qed

lemma over_allocation_unreachable:
  assumes "0 < S" "0 \<le> a"
  shows "\<not> raises over_allocation (airdrop_share S a)"
proof -
  have "(roundingVerificationAirdrop S a - a) * 10000 < S" "a \<le> roundingVerificationAirdrop S a"
    using verification_bounds [OF assms] by simp_all
  then have "((roundingVerificationAirdrop S a - a) * 10000) sdiv S = 0"
    using assms by (simp add: sdiv_nonneg)
  then show ?thesis using assms
    by (auto simp add: airdrop_share_def Let_def raises_def roundedAirdropTooHigh_def)
qed

lemma vault_extension_kinds:
  "map extension_kind_of (vault_extension cfg rel) = present (vault cfg) VaultExt"
  by (simp add: vault_extension_def present_def extension_kind_of_def split: option.splits)

lemma airdrop_extension_kinds:
  "map extension_kind_of (airdrop_extension cfg rel b) = present (airdrop cfg) AirdropExt"
  by (simp add: airdrop_extension_def present_def extension_kind_of_def split: option.splits)

lemma devbuy_extension_kinds:
  assumes "encodeDevBuyExtension e cfg rel = Inr xs"
  shows "map extension_kind_of xs = present (devBuy cfg) DevBuyExt"
  using assms
  by (auto simp add: encodeDevBuyExtension_def present_def extension_kind_of_def
      split: option.splits devbuy_cfg.splits)

lemma build_tx_extensions:
  "extensionConfigs (tx_args (build_tx e cfg cc rel salt expected b devbuy val))
     = vault_extension cfg rel @ airdrop_extension cfg rel b @ devbuy"
  by (simp add: build_tx_def Let_def split: prod.splits)

lemma converter_extensions:
  assumes "clankerTokenV4Converter e config = Inr tx"
  shows "\<exists>rel b devbuy. encodeDevBuyExtension e config rel = Inr devbuy
           \<and> extensionConfigs (tx_args tx)
               = vault_extension config rel @ airdrop_extension config rel b @ devbuy"
proof -
  have p: "clankerTokenV4_parse e config = Inr config"
    using assms by (auto simp add: clankerTokenV4Converter_def clankerTokenV4_parse_def
        split: list.splits)
  obtain cc rel salt expected b devbuy val
    where d: "encodeDevBuyExtension e config rel = Inr devbuy"
      and t: "tx = build_tx e config cc rel salt expected b devbuy val"
    using assms unfolding clankerTokenV4Converter_def p
    by (auto split: option.splits sum.splits prod.splits)
  have "extensionConfigs (tx_args tx)
          = vault_extension config rel @ airdrop_extension config rel b @ devbuy"
    unfolding t by (rule build_tx_extensions)
  then show ?thesis using d by blast
qed

lemma example_converts:
  "\<exists>tx. clankerTokenV4Converter example_env
     (example_cfg [\<lparr>tickLower = - 230400, tickUpper = - 120000, positionBps = 10000\<rparr>]) = Inr tx"
  by (simp add: clankerTokenV4Converter_def clankerTokenV4_parse_def issue_defs example_env_def
      example_cfg_def zeroAddress_def signed_modulo_int_def signed_divide_int_def
      vanity_salt_def airdrop_share_def airdropAmount_def bpsAirdropped_def
      roundingVerificationAirdrop_def roundedAirdropTooLow_def roundedAirdropTooHigh_def
      encodeDevBuyExtension_def devbuy_value_def example_related_def)

lemma understandError_revert:
  assumes "revert_found e dataName sig"
  shows "understandError e = classify_revert e dataName sig"
proof -
  have b: "instanceof_BaseError e" using assms by (simp add: revert_found_def)
  then have i: "instanceof_Error e" by (cases e) simp_all
  obtain m c where w: "walk instanceof_Reverted e
      = Some (ErrorObject (ContractFunctionRevertedError dataName sig) m c)"
    using assms
    by (auto simp add: revert_found_def split: option.splits thrown.splits error_class.splits)
  show ?thesis using b i w by (simp add: understandError_def)
qed

lemma estimate_cases:
  "\<exists>r. fst (estimateGasClankerContract client acct tx tr) = Inr r \<and> exactly_one r
       \<and> (\<forall>e. estimateContractGas client acct tx = Inl e \<longrightarrow> r = failed_with e)"
  by (cases "estimateContractGas client acct tx")
     (simp_all add: estimateGasClankerContract_def exactly_one_def failed_with_def)

lemma simulate_cases:
  "\<exists>r. fst (simulateClankerContract client acct tx tr) = Inr r \<and> exactly_one r
       \<and> (\<forall>e. simulateContract client acct tx = Inl e \<longrightarrow> r = failed_with e)"
  by (cases "simulateContract client acct tx")
     (simp_all add: simulateClankerContract_def exactly_one_def failed_with_def)

lemma submit_cases:
  "\<exists>r. fst (submit wallet tx tr) = Inr r \<and> exactly_one r
       \<and> (\<forall>e. writeContract wallet tx = Inl e \<longrightarrow> r = failed_with e)"
  by (cases "writeContract wallet tx")
     (simp_all add: submit_def exactly_one_def failed_with_def)

lemma write_cases:
  "\<exists>r. fst (writeClankerContract client wallet tx sim tr) = Inr r \<and> exactly_one r
       \<and> (\<forall>e. sim \<and> simulateContract client (account wallet) tx = Inl e \<longrightarrow> r = failed_with e)
       \<and> (\<forall>e. (sim \<longrightarrow> (\<exists>res. simulateContract client (account wallet) tx = Inr res))
               \<and> writeContract wallet tx = Inl e \<longrightarrow> r = failed_with e)"
proof (cases sim)
  case False
  then show ?thesis using submit_cases [of wallet tx tr]
    by (auto simp add: writeClankerContract_def)
next
  case True
  show ?thesis
  proof (cases "simulateContract client (account wallet) tx")
    case (Inl e)
    then show ?thesis using True
      by (simp add: writeClankerContract_def simulateClankerContract_def exactly_one_def failed_with_def)
  next
    case (Inr res)
    then show ?thesis using True submit_cases [of wallet tx "tr @ [Simulate (account wallet) tx]"]
      by (auto simp add: writeClankerContract_def simulateClankerContract_def)
  qed
qed

lemma deployToken_trace:
  assumes "deployToken tx wallet pc [] = (res, calls)" and "Simulate a t \<in> set calls"
  shows "\<exists>w acct g.
           wallet = Some w \<and> a = Some acct \<and> account w = Some acct
           \<and> estimateContractGas pc (Some acct) tx = Inr g
           \<and> t = tx\<lparr>gas := Some ((g * 12) sdiv 10)\<rparr>
           \<and> (res, calls) = writeClankerContract pc w t True [EstimateGas (Some acct) tx]"
  using assms
  by (auto simp add: deployToken_def estimateGasClankerContract_def writeClankerContract_def
      simulateClankerContract_def submit_def
      split: option.splits if_splits sum.splits prod.splits)

lemma parseEventLogs_filter:
  "parseEventLogs_TokenCreated logs = map tokenAddress (filter is_TokenCreated logs)"
  by (induction logs rule: parseEventLogs_TokenCreated.induct) simp_all

lemma starts_with_iff: "starts_with s sub = (\<exists>q. s = sub @ q)"
  by (induction s sub rule: starts_with.induct) auto

lemma includes_str_iff: "includes_str s sub = (\<exists>p q. s = p @ sub @ q)"
proof (induction s)
  case Nil
  then show ?case by simp
next
  case (Cons x xs)
  show ?case
  proof
    assume "includes_str (x # xs) sub"
    then consider "starts_with (x # xs) sub" | "includes_str xs sub" by auto
    then show "\<exists>p q. x # xs = p @ sub @ q"
    proof cases
      case 1
      then obtain q where "x # xs = sub @ q" using starts_with_iff by blast
      then have "x # xs = [] @ sub @ q" by simp
      then show ?thesis by blast
    next
      case 2
      then obtain p q where "xs = p @ sub @ q" using Cons.IH by blast
      then have "x # xs = (x # p) @ sub @ q" by simp
      then show ?thesis by blast
    qed
  next
    assume "\<exists>p q. x # xs = p @ sub @ q"
    then obtain p q where e: "x # xs = p @ sub @ q" by blast
    show "includes_str (x # xs) sub"
    proof (cases p)
      case Nil
      then have "starts_with (x # xs) sub" using e starts_with_iff by auto
      then show ?thesis by simp
    next
      case (Cons y p')
      then have "xs = p' @ sub @ q" using e by simp
      then have "includes_str xs sub" using Cons.IH by blast
      then show ?thesis by simp
    qed
  qed
qed

lemma returned_no_data_iff:
  "returned_no_data err =
     (\<exists>nm msg p q. err = ObjectValue (StringValue nm) (StringValue msg)
        \<and> (nm = ''ContractFunctionExecutionError'' \<or> nm = ''ContractFunctionZeroDataError'')
        \<and> msg = p @ ''returned no data'' @ q)"
  by (auto simp add: returned_no_data_def includes_str_iff simp del: includes_str.simps
      split: caught.splits property.splits)

section \<open>Schema validation of the liquidity positions\<close>

text \<open>
  C1. The schema is to accept a position list only if its basis points sum to exactly
  10,000. The callback of the positions' refinement folds the sum from 10,000 and returns
  the number itself, so that lists summing to 9,999 and to 10,001 are accepted: the parse
  of the sample configuration returns the configuration unchanged for both.
\<close>

theorem positions_sum_not_enforced:
  "clankerTokenV4_parse example_env
     (example_cfg [\<lparr>tickLower = - 230400, tickUpper = - 120000, positionBps = 9999\<rparr>])
   = Inr (example_cfg [\<lparr>tickLower = - 230400, tickUpper = - 120000, positionBps = 9999\<rparr>])
   \<and> clankerTokenV4_parse example_env
     (example_cfg [\<lparr>tickLower = - 230400, tickUpper = - 120000, positionBps = 10000\<rparr>,
                   \<lparr>tickLower = - 120000, tickUpper = 0, positionBps = 1\<rparr>])
   = Inr (example_cfg [\<lparr>tickLower = - 230400, tickUpper = - 120000, positionBps = 10000\<rparr>,
                       \<lparr>tickLower = - 120000, tickUpper = 0, positionBps = 1\<rparr>])"
  by (simp add: clankerTokenV4_parse_def issue_defs example_env_def example_cfg_def zeroAddress_def
      signed_modulo_int_def)

section \<open>Airdrop rounding\<close>

text \<open>
  C2. For a total supply \<open>S > 0\<close> and a requested amount of \<open>A \<ge> 0\<close> whole tokens, with
  \<open>a = A * 10^18\<close>: the share is the ceiling of \<open>a * 10000 / S\<close>, that is the integer
  quotient plus one when the remainder is not zero; the verified quantity
  \<open>share * S div 10000\<close> is at least \<open>a\<close>; and the under-allocation error is never raised,
  neither by the rounding step nor by the converter on any configuration.
\<close>

theorem airdrop_share_is_ceiling_and_covers:
  assumes "0 < S" and "0 \<le> A"
  shows "bpsAirdropped S (A * 10 ^ 18) = \<lceil>real_of_int (A * 10 ^ 18 * 10000) / real_of_int S\<rceil>
       \<and> bpsAirdropped S (A * 10 ^ 18)
           = (A * 10 ^ 18 * 10000) div S + (if (A * 10 ^ 18 * 10000) mod S \<noteq> 0 then 1 else 0)
       \<and> roundingVerificationAirdrop S (A * 10 ^ 18) \<ge> A * 10 ^ 18
       \<and> \<not> roundedAirdropTooLow (A * 10 ^ 18) (roundingVerificationAirdrop S (A * 10 ^ 18))
       \<and> \<not> raises under_allocation (airdrop_share S (A * 10 ^ 18))
       \<and> (\<forall>e c. DEFAULT_SUPPLY e = S \<longrightarrow> \<not> raises under_allocation (clankerTokenV4Converter e c))"
proof -
  have a: "0 \<le> A * 10 ^ 18" using assms(2) by simp
  have b: "bpsAirdropped S (A * 10 ^ 18)
           = (A * 10 ^ 18 * 10000) div S + (if (A * 10 ^ 18 * 10000) mod S \<noteq> 0 then 1 else 0)"
    using bpsAirdropped_div [OF assms(1) a] .
  have c: "bpsAirdropped S (A * 10 ^ 18) = \<lceil>real_of_int (A * 10 ^ 18 * 10000) / real_of_int S\<rceil>"
    unfolding b using ceil_div_int [OF assms(1), of "A * 10 ^ 18 * 10000"] by simp
  have v: "A * 10 ^ 18 \<le> roundingVerificationAirdrop S (A * 10 ^ 18)"
    using verification_bounds(1) [OF assms(1) a] .
  have l: "\<not> raises under_allocation (airdrop_share S (A * 10 ^ 18))"
    using airdrop_share_not_too_low [OF assms(1) a] .
  have k: "\<forall>e c. DEFAULT_SUPPLY e = S \<longrightarrow> \<not> raises under_allocation (clankerTokenV4Converter e c)"
    using converter_not_too_low assms(1) by blast
  show ?thesis using b c v l k by (simp add: roundedAirdropTooLow_def)
qed

theorem airdrop_share_is_ceiling_and_covers_witness:
  "(0::int) < 10 ^ 29 \<and> (0::int) \<le> 333333334
   \<and> bpsAirdropped (10 ^ 29) (333333334 * 10 ^ 18) = 34
   \<and> roundingVerificationAirdrop (10 ^ 29) (333333334 * 10 ^ 18) \<ge> 333333334 * 10 ^ 18
   \<and> \<not> raises under_allocation (airdrop_share (10 ^ 29) (333333334 * 10 ^ 18))
   \<and> \<not> raises under_allocation (clankerTokenV4Converter example_env
            (example_cfg [\<lparr>tickLower = - 230400, tickUpper = - 120000, positionBps = 10000\<rparr>]))"
proof -
  have S: "(0::int) < 10 ^ 29" and A: "(0::int) \<le> 333333334" by simp_all
  have env: "DEFAULT_SUPPLY example_env = 10 ^ 29" by (simp add: example_env_def)
  have b: "bpsAirdropped (10 ^ 29) (333333334 * 10 ^ 18) = 34"
    by (simp add: bpsAirdropped_def signed_divide_int_def signed_modulo_int_def)
  note T = airdrop_share_is_ceiling_and_covers [OF S A]
  have v: "roundingVerificationAirdrop (10 ^ 29) (333333334 * 10 ^ 18) \<ge> 333333334 * 10 ^ 18"
    using T by (elim conjE)
  have l: "\<not> raises under_allocation (airdrop_share (10 ^ 29) (333333334 * 10 ^ 18))"
    using T by (elim conjE)
  have "\<forall>e c. DEFAULT_SUPPLY e = 10 ^ 29 \<longrightarrow> \<not> raises under_allocation (clankerTokenV4Converter e c)"
    using T by (elim conjE)
  then have k: "\<not> raises under_allocation (clankerTokenV4Converter example_env
            (example_cfg [\<lparr>tickLower = - 230400, tickUpper = - 120000, positionBps = 10000\<rparr>]))"
    using env by (elim allE impE)
  show ?thesis
    using S A b v l k by (intro conjI)
qed

text \<open>
  C3. The over-allocation error is raised exactly when the truncating quotient
  \<open>((v - a) * 10000) sdiv S\<close> exceeds 1, \<open>v\<close> being the verified quantity; since the
  comparison is made on the truncated quotient, an excess strictly between one and two
  basis points of the supply does not trip it.
\<close>

theorem over_allocation_check_truncates:
  assumes "0 < S"
  shows "raises over_allocation (airdrop_share S a)
           = roundedAirdropTooHigh S a (roundingVerificationAirdrop S a)
       \<and> roundedAirdropTooHigh S a v = (1 < ((v - a) * 10000) sdiv S)
       \<and> (S < (v - a) * 10000 \<and> (v - a) * 10000 < 2 * S \<longrightarrow> \<not> roundedAirdropTooHigh S a v)"
proof -
  have 1: "raises over_allocation (airdrop_share S a)
           = roundedAirdropTooHigh S a (roundingVerificationAirdrop S a)"
    using assms too_low_excludes_too_high [OF assms, of a "roundingVerificationAirdrop S a"]
    by (auto simp add: airdrop_share_def Let_def raises_def)
  have 3: "S < (v - a) * 10000 \<and> (v - a) * 10000 < 2 * S \<longrightarrow> \<not> roundedAirdropTooHigh S a v"
    using truncation_between_one_and_two [OF assms, of "(v - a) * 10000"]
    by (simp add: roundedAirdropTooHigh_def)
  show ?thesis using 1 3 by (simp add: roundedAirdropTooHigh_def)
qed

theorem over_allocation_check_truncates_witness:
  "(0::int) < 20000
   \<and> roundedAirdropTooHigh 20000 0 5
   \<and> (20000::int) < (3 - 0) * 10000 \<and> ((3::int) - 0) * 10000 < 2 * 20000
   \<and> \<not> roundedAirdropTooHigh 20000 0 3
   \<and> \<not> raises over_allocation (airdrop_share 20000 0)"
proof -
  have S: "(0::int) < 20000" by simp
  note T = over_allocation_check_truncates [OF S, of 0 3]
  have h: "(20000::int) < (3 - 0) * 10000 \<and> ((3::int) - 0) * 10000 < 2 * 20000" by simp
  have n: "\<not> roundedAirdropTooHigh 20000 0 3" using T h by blast
  have e: "\<not> roundedAirdropTooHigh 20000 0 (roundingVerificationAirdrop 20000 0)"
    by (simp add: roundedAirdropTooHigh_def roundingVerificationAirdrop_def bpsAirdropped_def)
  have r: "\<not> raises over_allocation (airdrop_share 20000 0)" using T e by blast
  have f: "roundedAirdropTooHigh 20000 0 5"
    by (simp add: roundedAirdropTooHigh_def signed_divide_int_def)
  show ?thesis using S f h n r by (intro conjI) simp_all
qed

section \<open>Extension order\<close>

text \<open>
  C4. When the converter returns a transaction, the kinds of its extension configurations
  are the vault's, the airdrop's and the dev buy's, in this order, each present exactly
  when the configuration has the setting: nothing stands for an absent extension and the
  order never changes.
\<close>

theorem extensions_in_fixed_order:
  assumes "clankerTokenV4Converter e config = Inr tx"
  shows "map extension_kind_of (extensionConfigs (tx_args tx))
           = present (vault config) VaultExt @ present (airdrop config) AirdropExt
             @ present (devBuy config) DevBuyExt"
proof -
  obtain rel b devbuy where d: "encodeDevBuyExtension e config rel = Inr devbuy"
    and x: "extensionConfigs (tx_args tx)
               = vault_extension config rel @ airdrop_extension config rel b @ devbuy"
    using converter_extensions [OF assms] by blast
  show ?thesis unfolding x
    by (simp add: vault_extension_kinds airdrop_extension_kinds devbuy_extension_kinds [OF d])
qed

theorem extensions_in_fixed_order_witness:
  "\<exists>tx. clankerTokenV4Converter example_env
           (example_cfg [\<lparr>tickLower = - 230400, tickUpper = - 120000, positionBps = 10000\<rparr>]) = Inr tx
       \<and> map extension_kind_of (extensionConfigs (tx_args tx)) = [VaultExt, DevBuyExt]"
proof -
  obtain tx where c: "clankerTokenV4Converter example_env
     (example_cfg [\<lparr>tickLower = - 230400, tickUpper = - 120000, positionBps = 10000\<rparr>]) = Inr tx"
    using example_converts by blast
  have k: "map extension_kind_of (extensionConfigs (tx_args tx)) = [VaultExt, DevBuyExt]"
    using extensions_in_fixed_order [OF c] by (simp add: present_def example_cfg_def)
  show ?thesis by (rule exI [of _ tx]) (simp add: c k)
qed

section \<open>Fee encoding\<close>

text \<open>
  C5. The fee block that the encoder returns (bare, or inside the pool initialization data)
  holds each fee of the variant multiplied by 100: the clanker and paired fees of a static
  variant, the base and maximum fees of a dynamic one, whose other fields are encoded as
  they are. A static variant with fees 100 and 200 is encoded with 10,000 and 20,000.
\<close>

theorem fee_fields_scaled_by_100:
  "feeData_of (snd (encodeFeeConfig cfg rel))
     = (case fees cfg of
          Static c p \<Rightarrow> StaticFee_Instantiation (c * 100) (p * 100)
        | Dynamic b m rtfp rp rtf fcn dfb \<Rightarrow>
            DynamicFee_Instantiation (b * 100) (m * 100) rtfp rp rtf fcn dfb)
   \<and> feeData_of (snd (encodeFeeConfig (cfg\<lparr>fees := Static 100 200\<rparr>) rel))
     = StaticFee_Instantiation 10000 20000"
  by (simp add: encodeFeeConfig_def Let_def split: fee_cfg.splits option.splits)

theorem fee_fields_scaled_by_100_witness:
  "feeData_of (snd (encodeFeeConfig (example_cfg []) example_related))
     = StaticFee_Instantiation 10000 20000"
  using fee_fields_scaled_by_100 [of "example_cfg []" example_related]
  by (simp add: example_cfg_def)

section \<open>Error classification\<close>

text \<open>
  C6. The classifier is to look a revert up in three tiers: the name table, then the
  selector table for a name the name table does not hold, then kind unknown with the
  revert's name kept. The name is looked up with a plain property read, which also finds
  what every object inherits: a revert named \<open>toString\<close> with the selector 0x7e5ba1ad is
  neither of kind state with the label "Hook not enabled." nor of kind unknown, and a
  revert named \<open>valueOf\<close> with a selector of neither table is not of kind unknown and
  loses its name; in both the data of the result is the inherited function, whose kind,
  label and raw name are undefined.
\<close>

theorem classifier_inherited_name_misclassified:
  "ErrorMapping ''toString'' = None
   \<and> SignatureToError ''0x7e5ba1ad''
       = Some \<lparr>errorType = state, label = ''Hook not enabled.'', rawName = ''HookNotEnabled''\<rparr>
   \<and> data (understandError (example_revert ''toString'' ''0x7e5ba1ad'')) = InheritedValue ''toString''
   \<and> type_of_data (data (understandError (example_revert ''toString'' ''0x7e5ba1ad''))) = None
   \<and> label_of_data (data (understandError (example_revert ''toString'' ''0x7e5ba1ad''))) = None
   \<and> ErrorMapping ''valueOf'' = None
   \<and> SignatureToError ''0x12345678'' = None
   \<and> data (understandError (example_revert ''valueOf'' ''0x12345678'')) = InheritedValue ''valueOf''
   \<and> type_of_data (data (understandError (example_revert ''valueOf'' ''0x12345678''))) = None
   \<and> rawName_of_data (data (understandError (example_revert ''valueOf'' ''0x12345678''))) = None"
  by (simp add: understandError_def example_revert_def classify_revert_def plain_object_get_def
      ErrorMapping_def SignatureToError_def Object_prototype_names_def Let_def)

text \<open>
  What holds of the three tiers: the first always; the second and the third for every name
  whose read of the name table is undefined, that is every name that is neither an entry
  of the table nor the name of an inherited property. A revert without a name, or with an
  empty one, gets the raw name "unknown".
\<close>

lemma classifier_tiers_on_undefined_reads:
  assumes "revert_found e dataName sig"
  shows "(dataName = Some ''NoFeesToClaim'' \<longrightarrow>
            data (understandError e)
              = Data \<lparr>errorType = state, label = ''No fees to claim'', rawName = ''NoFeesToClaim''\<rparr>)
       \<and> (plain_object_get ErrorMapping (case dataName of None \<Rightarrow> [] | Some n \<Rightarrow> n) = None
            \<and> sig = Some ''0x7e5ba1ad'' \<longrightarrow>
            data (understandError e)
              = Data \<lparr>errorType = state, label = ''Hook not enabled.'', rawName = ''HookNotEnabled''\<rparr>)
       \<and> (plain_object_get ErrorMapping (case dataName of None \<Rightarrow> [] | Some n \<Rightarrow> n) = None
            \<and> plain_object_get SignatureToError
                 (case sig of None \<Rightarrow> ''0x'' | Some s \<Rightarrow> if s = [] then ''0x'' else s) = None \<longrightarrow>
            data (understandError e)
              = Data \<lparr>errorType = unknown, label = ''Something went wrong'',
                      rawName = (case dataName of None \<Rightarrow> ''unknown''
                                 | Some n \<Rightarrow> if n = [] then ''unknown'' else n)\<rparr>
            \<and> wrapped (understandError e) = e)"
proof -
  note u = understandError_revert [OF assms]
  have 1: "dataName = Some ''NoFeesToClaim'' \<longrightarrow>
            data (understandError e)
              = Data \<lparr>errorType = state, label = ''No fees to claim'', rawName = ''NoFeesToClaim''\<rparr>"
    unfolding u by (simp add: classify_revert_def plain_object_get_def ErrorMapping_def Let_def)
  have 2: "plain_object_get ErrorMapping (case dataName of None \<Rightarrow> [] | Some n \<Rightarrow> n) = None
            \<and> sig = Some ''0x7e5ba1ad'' \<longrightarrow>
            data (understandError e)
              = Data \<lparr>errorType = state, label = ''Hook not enabled.'', rawName = ''HookNotEnabled''\<rparr>"
    unfolding u
    by (auto simp add: classify_revert_def Let_def)
       (simp add: plain_object_get_def SignatureToError_def)
  have 3: "plain_object_get ErrorMapping (case dataName of None \<Rightarrow> [] | Some n \<Rightarrow> n) = None
            \<and> plain_object_get SignatureToError
                 (case sig of None \<Rightarrow> ''0x'' | Some s \<Rightarrow> if s = [] then ''0x'' else s) = None \<longrightarrow>
            data (understandError e)
              = Data \<lparr>errorType = unknown, label = ''Something went wrong'',
                      rawName = (case dataName of None \<Rightarrow> ''unknown''
                                 | Some n \<Rightarrow> if n = [] then ''unknown'' else n)\<rparr>
            \<and> wrapped (understandError e) = e"
    unfolding u
    by (simp add: classify_revert_def ClankerError_unknown_def Let_def split: option.splits)
  show ?thesis using 1 2 3 by (intro conjI)
qed

lemma plain_object_get_undefined_iff:
  "(plain_object_get table key = None) = (table key = None \<and> key \<notin> set Object_prototype_names)"
  by (simp add: plain_object_get_def split: option.splits)

lemma classifier_tiers_examples:
  "data (understandError (example_revert ''NoFeesToClaim'' ''0x12345678''))
       = Data \<lparr>errorType = state, label = ''No fees to claim'', rawName = ''NoFeesToClaim''\<rparr>
   \<and> data (understandError (example_revert ''Custom'' ''0x7e5ba1ad''))
       = Data \<lparr>errorType = state, label = ''Hook not enabled.'', rawName = ''HookNotEnabled''\<rparr>
   \<and> data (understandError (example_revert ''Custom'' ''0x12345678''))
       = Data \<lparr>errorType = unknown, label = ''Something went wrong'', rawName = ''Custom''\<rparr>"
  by (simp add: understandError_def example_revert_def classify_revert_def plain_object_get_def
      ErrorMapping_def SignatureToError_def Object_prototype_names_def ClankerError_unknown_def
      Let_def)

section \<open>Result tuples\<close>

text \<open>
  C7. Gas estimation, simulation and submission each return, and what they return has
  either its success fields or its error, never both and never neither; a failure of the
  underlying call is the error of the result, classified, and is not thrown.
\<close>

theorem operations_return_result_tuples:
  "(\<exists>r. fst (estimateGasClankerContract client acct tx tr) = Inr r \<and> exactly_one r
        \<and> (\<forall>e. estimateContractGas client acct tx = Inl e \<longrightarrow> r = failed_with e))
   \<and> (\<exists>r. fst (simulateClankerContract client acct tx tr) = Inr r \<and> exactly_one r
        \<and> (\<forall>e. simulateContract client acct tx = Inl e \<longrightarrow> r = failed_with e))
   \<and> (\<exists>r. fst (writeClankerContract client wallet tx sim tr) = Inr r \<and> exactly_one r
        \<and> (\<forall>e. sim \<and> simulateContract client (account wallet) tx = Inl e \<longrightarrow> r = failed_with e)
        \<and> (\<forall>e. (sim \<longrightarrow> (\<exists>res. simulateContract client (account wallet) tx = Inr res))
                \<and> writeContract wallet tx = Inl e \<longrightarrow> r = failed_with e))"
  using estimate_cases [of client acct tx tr] simulate_cases [of client acct tx tr]
    write_cases [of client wallet tx sim tr]
  by (intro conjI)

theorem operations_return_result_tuples_witness:
  "fst (estimateGasClankerContract
          (example_client (Inl (example_revert ''NoFeesToClaim'' ''0x'')) (Inr ''ok'') [])
          (Some ''0xdeployer'') example_tx [])
     = Inr (failed_with (example_revert ''NoFeesToClaim'' ''0x''))
   \<and> fst (simulateClankerContract
          (example_client (Inr 100) (Inl (example_revert ''NoFeesToClaim'' ''0x'')) [])
          (Some ''0xdeployer'') example_tx [])
     = Inr (failed_with (example_revert ''NoFeesToClaim'' ''0x''))
   \<and> fst (writeClankerContract
          (example_client (Inr 100) (Inr ''ok'') [])
          (example_wallet (Inl (example_revert ''NoFeesToClaim'' ''0x''))) example_tx True [])
     = Inr (failed_with (example_revert ''NoFeesToClaim'' ''0x''))"
proof -
  let ?e = "example_revert ''NoFeesToClaim'' ''0x''"
  let ?c1 = "example_client (Inl ?e) (Inr ''ok'') []"
  let ?c2 = "example_client (Inr 100) (Inl ?e) []"
  let ?c3 = "example_client (Inr 100) (Inr ''ok'') []"
  let ?w = "example_wallet (Inl ?e)"
  note T1 = operations_return_result_tuples [of ?c1 "Some ''0xdeployer''" example_tx "[]" ?w True]
  note T2 = operations_return_result_tuples [of ?c2 "Some ''0xdeployer''" example_tx "[]" ?w True]
  note T3 = operations_return_result_tuples [of ?c3 "Some ''0xdeployer''" example_tx "[]" ?w True]
  have 1: "fst (estimateGasClankerContract ?c1 (Some ''0xdeployer'') example_tx []) = Inr (failed_with ?e)"
    using T1 by (auto simp add: example_client_def)
  have 2: "fst (simulateClankerContract ?c2 (Some ''0xdeployer'') example_tx []) = Inr (failed_with ?e)"
    using T2 by (auto simp add: example_client_def)
  have 3: "fst (writeClankerContract ?c3 ?w example_tx True []) = Inr (failed_with ?e)"
    using T3 by (auto simp add: example_client_def example_wallet_def)
  show ?thesis using 1 2 3 by (intro conjI)
qed

section \<open>A failed simulation stops the deployment\<close>

text \<open>
  C8. In a run of the deployment whose simulation call fails, no submission call is made,
  and the run returns the classified failure of the simulation, with no transaction hash.
\<close>

theorem failed_simulation_blocks_submission:
  assumes "deployToken tx wallet pc [] = (res, calls)"
    and "Simulate a t \<in> set calls"
    and "simulateContract pc a t = Inl e"
  shows "\<not> list_ex is_Write calls
       \<and> res = Inr \<lparr>success = None, error = Some (understandError e)\<rparr>"
proof -
  obtain w acct g where a: "a = Some acct" "account w = Some acct"
    and r: "(res, calls) = writeClankerContract pc w t True [EstimateGas (Some acct) tx]"
    using deployToken_trace [OF assms(1,2)] by blast
  have s: "simulateContract pc (account w) t = Inl e" using assms(3) a by simp
  show ?thesis using r s
    by (simp add: writeClankerContract_def simulateClankerContract_def)
qed

theorem failed_simulation_blocks_submission_witness:
  "deployToken example_tx (Some (example_wallet (Inr ''0xhash'')))
       (example_client (Inr 100) (Inl (example_revert ''NoFeesToClaim'' ''0x'')) []) []
     = (Inr \<lparr>success = None, error = Some (understandError (example_revert ''NoFeesToClaim'' ''0x''))\<rparr>,
        [EstimateGas (Some ''0xdeployer'') example_tx,
         Simulate (Some ''0xdeployer'') (example_tx\<lparr>gas := Some 120\<rparr>)])
   \<and> \<not> list_ex is_Write
        [EstimateGas (Some ''0xdeployer'') example_tx,
         Simulate (Some ''0xdeployer'') (example_tx\<lparr>gas := Some 120\<rparr>)]"
proof -
  let ?e = "example_revert ''NoFeesToClaim'' ''0x''"
  let ?pc = "example_client (Inr 100) (Inl ?e) []"
  let ?calls = "[EstimateGas (Some ''0xdeployer'') example_tx,
         Simulate (Some ''0xdeployer'') (example_tx\<lparr>gas := Some 120\<rparr>)]"
  have d: "deployToken example_tx (Some (example_wallet (Inr ''0xhash''))) ?pc []
             = (Inr \<lparr>success = None, error = Some (understandError ?e)\<rparr>, ?calls)"
    by (simp add: deployToken_def example_wallet_def example_client_def example_tx_def
        estimateGasClankerContract_def writeClankerContract_def simulateClankerContract_def
        signed_divide_int_def)
  have m: "Simulate (Some ''0xdeployer'') (example_tx\<lparr>gas := Some 120\<rparr>) \<in> set ?calls" by simp
  have f: "simulateContract ?pc (Some ''0xdeployer'') (example_tx\<lparr>gas := Some 120\<rparr>) = Inl ?e"
    by (simp add: example_client_def)
  show ?thesis using d failed_simulation_blocks_submission [OF d m f] by (intro conjI) simp_all
qed

section \<open>The deployed address\<close>

text \<open>
  C9. Once the receipt is there, the confirmation step returns the token address of the
  first log entry that is a token-created event; when no entry is one, it fails with an
  error instead of returning a result without an address.
\<close>

theorem address_from_first_token_created_log:
  assumes "waitForTransactionReceipt pc h = Inr logs"
  shows "(filter is_TokenCreated logs = [] \<longrightarrow>
            (\<exists>t. fst (waitForTransaction pc h tr) = Inl t))
       \<and> (filter is_TokenCreated logs \<noteq> [] \<longrightarrow>
            fst (waitForTransaction pc h tr)
              = Inr \<lparr>success = Some (tokenAddress (hd (filter is_TokenCreated logs))), error = None\<rparr>)"
  using assms
  by (cases "filter is_TokenCreated logs")
     (simp_all add: waitForTransaction_def parseEventLogs_filter)

theorem address_from_first_token_created_log_witness:
  "fst (waitForTransaction
          (example_client (Inr 100) (Inr ''ok'')
             [OtherLog ''Transfer'', TokenCreated ''0xtoken'', TokenCreated ''0xother'']) ''0xhash'' [])
     = Inr \<lparr>success = Some ''0xtoken'', error = None\<rparr>
   \<and> (\<exists>t. fst (waitForTransaction
          (example_client (Inr 100) (Inr ''ok'') [OtherLog ''Transfer'']) ''0xhash'' []) = Inl t)"
proof -
  let ?l1 = "[OtherLog ''Transfer'', TokenCreated ''0xtoken'', TokenCreated ''0xother'']"
  let ?l2 = "[OtherLog ''Transfer'']"
  have r1: "waitForTransactionReceipt (example_client (Inr 100) (Inr ''ok'') ?l1) ''0xhash'' = Inr ?l1"
    by (simp add: example_client_def)
  have r2: "waitForTransactionReceipt (example_client (Inr 100) (Inr ''ok'') ?l2) ''0xhash'' = Inr ?l2"
    by (simp add: example_client_def)
  show ?thesis
    using address_from_first_token_created_log [OF r1, of "[]"]
      address_from_first_token_created_log [OF r2, of "[]"]
    by simp
qed

section \<open>Claimable vault amount\<close>

text \<open>
  C10. When the contract read fails, the claimable amount is 0 exactly when the failure is
  an object named ContractFunctionExecutionError or ContractFunctionZeroDataError whose
  message is a string containing "returned no data"; any other failure is thrown again as
  it was caught.
\<close>

theorem vault_read_zero_on_no_data:
  assumes "publicClient = Some client"
    and "configFor (case vc_chain client of None \<Rightarrow> base_chain_id | Some c \<Rightarrow> c) = Some config"
    and "related config = Some rel"
    and "readContract client (rel_vault rel) ''amountAvailableToClaim'' tok = Inl err"
  shows "(getVaultClaimableAmount publicClient configFor tok = Inr 0)
           = (\<exists>nm msg p q. err = ObjectValue (StringValue nm) (StringValue msg)
                \<and> (nm = ''ContractFunctionExecutionError'' \<or> nm = ''ContractFunctionZeroDataError'')
                \<and> msg = p @ ''returned no data'' @ q)
       \<and> (getVaultClaimableAmount publicClient configFor tok \<noteq> Inr 0 \<longrightarrow>
            getVaultClaimableAmount publicClient configFor tok = Inl err)"
proof -
  have g: "getVaultClaimableAmount publicClient configFor tok
             = (if returned_no_data err then Inr 0 else Inl err)"
    using assms by (simp add: getVaultClaimableAmount_def Let_def)
  show ?thesis unfolding g returned_no_data_iff [symmetric] by simp
qed

theorem vault_read_zero_on_no_data_witness:
  "getVaultClaimableAmount
     (Some (example_vault_client
        (ObjectValue (StringValue ''ContractFunctionExecutionError'')
           (StringValue ''The contract function returned no data (0x).''))))
     (clankerConfigFor example_env) ''0xtoken'' = Inr 0
   \<and> getVaultClaimableAmount
     (Some (example_vault_client
        (ObjectValue (StringValue ''HttpRequestError'') (StringValue ''HTTP request failed.''))))
     (clankerConfigFor example_env) ''0xtoken''
     = Inl (ObjectValue (StringValue ''HttpRequestError'') (StringValue ''HTTP request failed.''))"
proof -
  let ?e1 = "ObjectValue (StringValue ''ContractFunctionExecutionError'')
           (StringValue ''The contract function returned no data (0x).'')"
  let ?e2 = "ObjectValue (StringValue ''HttpRequestError'') (StringValue ''HTTP request failed.'')"
  let ?cc = "\<lparr>cd_address = ''0xfactory'', related = Some example_related\<rparr>"
  have c1: "(clankerConfigFor example_env)
              (case vc_chain (example_vault_client ?e1) of None \<Rightarrow> base_chain_id | Some c \<Rightarrow> c)
            = Some ?cc"
    by (simp add: example_env_def example_vault_client_def base_chain_id_def)
  have c2: "(clankerConfigFor example_env)
              (case vc_chain (example_vault_client ?e2) of None \<Rightarrow> base_chain_id | Some c \<Rightarrow> c)
            = Some ?cc"
    by (simp add: example_env_def example_vault_client_def base_chain_id_def)
  have r: "related ?cc = Some example_related" by simp
  have f1: "readContract (example_vault_client ?e1) (rel_vault example_related)
              ''amountAvailableToClaim'' ''0xtoken'' = Inl ?e1"
    by (simp add: example_vault_client_def)
  have f2: "readContract (example_vault_client ?e2) (rel_vault example_related)
              ''amountAvailableToClaim'' ''0xtoken'' = Inl ?e2"
    by (simp add: example_vault_client_def)
  have m: "''The contract function returned no data (0x).''
             = ''The contract function '' @ ''returned no data'' @ '' (0x).''" by simp
  have 1: "getVaultClaimableAmount (Some (example_vault_client ?e1)) (clankerConfigFor example_env)
             ''0xtoken'' = Inr 0"
    using vault_read_zero_on_no_data [of _ "example_vault_client ?e1" "clankerConfigFor example_env"
        ?cc example_related "''0xtoken''" ?e1, OF refl c1 r f1] m by blast
  have 2: "getVaultClaimableAmount (Some (example_vault_client ?e2)) (clankerConfigFor example_env)
             ''0xtoken'' = Inl ?e2"
    using vault_read_zero_on_no_data [of _ "example_vault_client ?e2" "clankerConfigFor example_env"
        ?cc example_related "''0xtoken''" ?e2, OF refl c2 r f2] by auto
  show ?thesis using 1 2 by (intro conjI)
qed

end
